theory Spec2Isabelle
  imports Main "HOL-Library.AList" "HOL-Library.Sublist"
begin

section \<open>Values, exceptions and callables\<close>

text \<open>
  The embedding follows \<^verbatim>\<open>TheNumberOne.py\<close>. A Python \<^verbatim>\<open>str\<close> is a
  \<open>string\<close>, one \<open>char\<close> per code point (code points below 256, which covers every
  literal of the source). Exceptions are values: a function that can raise returns
  \<open>exn + 'a\<close> with \<open>Inl\<close> for the exception.
\<close>

datatype exn =
    ValueError_signature
    \<comment> \<open>line 62: ValueError("Incorrect function signature. ...")\<close>
  | ValueError_groups "string list"
    \<comment> \<open>line 68: ValueError("Following pattern's named groups don't fit ...: %s" % missings)\<close>
  | ValueError_unpack
    \<comment> \<open>line 119: unpacking \<^verbatim>\<open>cmd_name, *payload\<close> from an empty list\<close>
  | NameError string
    \<comment> \<open>a name that is not bound, line 72\<close>
  | KeyError string
  | AttributeError string
  | Raised bool string
    \<comment> \<open>raised by a callable or a library: whether it is an instance of
        \<^verbatim>\<open>Exception\<close>, and its text\<close>

fun is_Exception :: "exn \<Rightarrow> bool" where
  "is_Exception (Raised b _) = b"
| "is_Exception _ = True"

datatype pyval = PyNone | PyStr string | PyInt int | PyObj string

type_synonym type_hints = "(string \<times> (string \<Rightarrow> exn + pyval)) list"

type_synonym kwargs = "(string \<times> pyval) list"

record message =
  msg_author_id :: string
  msg_author_roles :: "string list option"
    \<comment> \<open>the names of \<^verbatim>\<open>message.author.roles\<close>; \<open>None\<close> for an author object
        that has no such attribute\<close>
  msg_channel_name :: string
  msg_channel_public :: bool
    \<comment> \<open>\<^verbatim>\<open>isinstance(message.channel, discord.Channel)\<close>\<close>
  msg_content :: string

text \<open>
  A callback is a Python function: what \<^verbatim>\<open>getfullargspec\<close> and
  \<^verbatim>\<open>get_type_hints\<close> report of it, and what calling it does. \<open>cb_call\<close> is the whole
  call, argument binding included: \<open>None\<close> when it returns, \<open>Some e\<close> when it raises.
  Synchronous and coroutine callbacks differ only in being awaited, so one field covers
  both branches of \<^verbatim>\<open>asyncio.iscoroutinefunction\<close>.
\<close>

record callback =
  cb_name :: string
  cb_args :: "string list"
  cb_varargs :: "string option"
  cb_varkw :: "string option"
  cb_kwonlyargs :: "string list"
  cb_type_hints :: type_hints
  cb_call :: "message \<Rightarrow> kwargs \<Rightarrow> exn option"

section \<open>The cast utility\<close>

text \<open>
  \<^verbatim>\<open>
  def cast_using_type_hints(type_hints: dict, kwargs: dict):
      return {key: value if value is None or key not in type_hints else type_hints[key](value)
              for key, value in kwargs.items()}
  \<close>
  The comprehension visits the items in the dictionary's order; the first constructor that
  raises ends it.
\<close>

fun cast_using_type_hints :: "type_hints \<Rightarrow> (string \<times> string option) list \<Rightarrow> exn + kwargs" where
  "cast_using_type_hints type_hints [] = Inr []"
| "cast_using_type_hints type_hints ((key, val) # items) =
     (case (case val of
              None \<Rightarrow> Inr PyNone
            | Some s \<Rightarrow>
                (case map_of type_hints key of
                   None \<Rightarrow> Inr (PyStr s)
                 | Some ty \<Rightarrow> ty s)) of
        Inl e \<Rightarrow> Inl e
      | Inr v \<Rightarrow>
          (case cast_using_type_hints type_hints items of
             Inl e \<Rightarrow> Inl e
           | Inr rest \<Rightarrow> Inr ((key, v) # rest)))"

text \<open>What the claim says of one entry: the raw item, and the item of the result.\<close>

definition cast_entry_ok :: "type_hints \<Rightarrow> string \<times> string option \<Rightarrow> string \<times> pyval \<Rightarrow> bool" where
  "cast_entry_ok type_hints raw res =
     (fst res = fst raw \<and>
      (case snd raw of
         None \<Rightarrow> snd res = PyNone
       | Some s \<Rightarrow>
           (case map_of type_hints (fst raw) of
              None \<Rightarrow> snd res = PyStr s
            | Some ty \<Rightarrow> ty s = Inr (snd res))))"

definition returns :: "exn + 'a \<Rightarrow> bool" where
  "returns r = (case r of Inl _ \<Rightarrow> False | Inr _ \<Rightarrow> True)"

definition conversion_succeeds :: "type_hints \<Rightarrow> string \<times> string option \<Rightarrow> bool" where
  "conversion_succeeds type_hints raw =
     (case snd raw of
        None \<Rightarrow> True
      | Some s \<Rightarrow>
          (case map_of type_hints (fst raw) of
             None \<Rightarrow> True
           | Some ty \<Rightarrow> returns (ty s)))"

section \<open>Commands, forwards and the registries\<close>

text \<open>
  \<^verbatim>\<open>Command = namedtuple("Command", ["channels", "roles", "regexp", "callback"])\<close>
  \<^verbatim>\<open>SubBot = namedtuple("SubBot", ["allow_commands", "callback"])\<close>

  The regular-expression engine is Python's \<^verbatim>\<open>re\<close>, outside the repository. A
  compiled pattern is what the engine is asked of it: its source text
  (\<^verbatim>\<open>regexp.pattern\<close>) and \<^verbatim>\<open>regexp.match\<close>, the library's match that
  starts at position zero of the string. A match object gives the position where the match
  ends (\<^verbatim>\<open>match.end()\<close>, which may lie before the end of the string) and
  \<^verbatim>\<open>match.groupdict()\<close>, where a named group that took no part in the match is
  \<open>None\<close>.
\<close>

record matchobj =
  m_end :: nat
  m_groupdict :: "(string \<times> string option) list"

record regexp =
  rx_pattern :: string
  rx_match :: "string \<Rightarrow> matchobj option"

record command =
  cmd_channels :: "string list option"
  cmd_roles :: "string list option"
  cmd_regexp :: "regexp option"
  cmd_callback :: callback

record subbot =
  sb_allow_commands :: bool
  sb_callback :: callback

text \<open>
  Dictionaries are association lists in insertion order with one entry per key;
  \<open>map_of\<close> reads a key and \<open>AList.update\<close> assigns one. The dictionaries of the
  registries are shared objects: \<^verbatim>\<open>maps.extend(base.__commands__.maps)\<close> puts the
  bases' own dictionaries, not copies, into the new \<^verbatim>\<open>ChainMap\<close>. The store maps
  the address of each dictionary to its content; a dispatcher class holds addresses.
\<close>

record store =
  st_commands :: "nat \<Rightarrow> (string \<times> command) list"
  st_forwards :: "nat \<Rightarrow> (string \<times> subbot list) list"
  st_next :: nat

record dispatcher =
  d_own :: nat
    \<comment> \<open>the address of \<^verbatim>\<open>__commands__.maps[0]\<close> and of \<^verbatim>\<open>__forwards__.maps[0]\<close>,
        the two dictionaries \<^verbatim>\<open>__new__\<close> creates\<close>
  d_inherited_commands :: "nat list"
  d_inherited_forwards :: "nat list"

definition commands_maps :: "dispatcher \<Rightarrow> nat list" where
  "commands_maps cls = d_own cls # d_inherited_commands cls"

definition forwards_maps :: "dispatcher \<Rightarrow> nat list" where
  "forwards_maps cls = d_own cls # d_inherited_forwards cls"

datatype base = PlainBase | DispatcherBase dispatcher

definition empty_store :: store where
  "empty_store = \<lparr>st_commands = (\<lambda>_. []), st_forwards = (\<lambda>_. []), st_next = 0\<rparr>"

text \<open>
  \<^verbatim>\<open>DispatcherMeta.__new__\<close> (lines 34-48): a fresh \<^verbatim>\<open>ChainMap()\<close> for the
  commands and one for the forwards, each extended by the maps of every base that is itself
  a dispatcher.
\<close>

definition DispatcherMeta_new :: "base list \<Rightarrow> store \<Rightarrow> dispatcher \<times> store" where
  "DispatcherMeta_new bases st =
     (let a = st_next st;
          maps = concat (map (\<lambda>b. case b of PlainBase \<Rightarrow> [] | DispatcherBase d \<Rightarrow> commands_maps d) bases);
          maps_fw = concat (map (\<lambda>b. case b of PlainBase \<Rightarrow> [] | DispatcherBase d \<Rightarrow> forwards_maps d) bases)
      in (\<lparr>d_own = a, d_inherited_commands = maps, d_inherited_forwards = maps_fw\<rparr>,
          st\<lparr>st_commands := (st_commands st)(a := []),
             st_forwards := (st_forwards st)(a := []),
             st_next := Suc a\<rparr>))"

subsection \<open>ChainMap\<close>

text \<open>
  \<^verbatim>\<open>ChainMap.__getitem__\<close> and \<^verbatim>\<open>get\<close> return the value of the first map that
  has the key; \<^verbatim>\<open>__contains__\<close> is \<^verbatim>\<open>any(key in m for m in self.maps)\<close>;
  \<^verbatim>\<open>__setitem__\<close> writes \<^verbatim>\<open>self.maps[0][key]\<close>.
\<close>

fun chain_get :: "(nat \<Rightarrow> (string \<times> 'v) list) \<Rightarrow> nat list \<Rightarrow> string \<Rightarrow> 'v option" where
  "chain_get h [] key = None"
| "chain_get h (a # maps) key =
     (case map_of (h a) key of Some v \<Rightarrow> Some v | None \<Rightarrow> chain_get h maps key)"

definition chain_contains :: "(nat \<Rightarrow> (string \<times> 'v) list) \<Rightarrow> nat list \<Rightarrow> string \<Rightarrow> bool" where
  "chain_contains h maps key = list_ex (\<lambda>a. map_of (h a) key \<noteq> None) maps"

definition chain_setitem ::
  "(nat \<Rightarrow> (string \<times> 'v) list) \<Rightarrow> nat \<Rightarrow> string \<Rightarrow> 'v \<Rightarrow> (nat \<Rightarrow> (string \<times> 'v) list)" where
  "chain_setitem h own key v = h(own := AList.update key v (h own))"

text \<open>
  \<^verbatim>\<open>cls.__forwards__[channel].append(x)\<close>: the list is the one object held by the
  first map that has the channel, and it is extended in place. \<open>None\<close> is the
  \<^verbatim>\<open>KeyError\<close> of a channel that no map has.
\<close>

fun chain_append ::
  "(nat \<Rightarrow> (string \<times> 'v list) list) \<Rightarrow> nat list \<Rightarrow> string \<Rightarrow> 'v \<Rightarrow> (nat \<Rightarrow> (string \<times> 'v list) list) option" where
  "chain_append h [] key x = None"
| "chain_append h (a # maps) key x =
     (case map_of (h a) key of
        Some l \<Rightarrow> Some (h(a := AList.update key (l @ [x]) (h a)))
      | None \<Rightarrow> chain_append h maps key x)"

subsection \<open>The named groups of a pattern\<close>

text \<open>
  \<^verbatim>\<open>args_re\<close> (line 30) and \<^verbatim>\<open>args_re.findall(pattern)\<close>: a match is
  the text \<^verbatim>\<open>(?P<\<close>, then the shortest run of one or more characters that are not
  white space and that the character \<^verbatim>\<open>>\<close> follows; the run is the group that
  \<^verbatim>\<open>findall\<close> lists. The matches are taken left to right and do not overlap.
  \<open>lazy_name\<close> reads the run after \<^verbatim>\<open>(?P<\<close> and returns it with the text
  after the closing character.
\<close>

definition is_space :: "char \<Rightarrow> bool" where
  "is_space c = (of_char c \<in> {9, 10, 11, 12, 13, 28, 29, 30, 31, 32, 133, 160 :: nat})"

definition startswith :: "string \<Rightarrow> string \<Rightarrow> bool" where
  "startswith s p = (take (length p) s = p)"

fun lazy_name :: "string \<Rightarrow> string \<Rightarrow> (string \<times> string) option" where
  "lazy_name acc [] = None"
| "lazy_name acc (c # cs) =
     (if is_space c then None
      else (case cs of
              [] \<Rightarrow> None
            | d # rest \<Rightarrow> if d = CHR ''>'' then Some (acc @ [c], rest) else lazy_name (acc @ [c]) cs))"

lemma lazy_name_shorter: "lazy_name acc s = Some (g, rest) \<Longrightarrow> length rest < length s"
  by (induction acc s rule: lazy_name.induct) (auto split: if_splits list.splits)

function args_re_findall :: "string \<Rightarrow> string list" where
  "args_re_findall [] = []"
| "args_re_findall (c # cs) =
     (if startswith (c # cs) ''(?P<'' then
        (case lazy_name [] (drop 4 (c # cs)) of
           Some (g, rest) \<Rightarrow> g # args_re_findall rest
         | None \<Rightarrow> args_re_findall cs)
      else args_re_findall cs)"
  by pat_completeness auto
termination
proof (relation "measure length")
  fix c :: char and cs :: string and x2 :: "string \<times> string" and g rest :: string
  assume "lazy_name [] (drop 4 (c # cs)) = Some x2" and "(g, rest) = x2"
  then have "length rest < length (drop 4 (c # cs))"
    using lazy_name_shorter [of "[]" "drop 4 (c # cs)" g rest] by simp
  then show "(rest, c # cs) \<in> measure length" by simp
qed simp_all

subsection \<open>Registration\<close>

text \<open>\<^verbatim>\<open>callback.__name__.strip("_")\<close>\<close>

definition strip_underscores :: "string \<Rightarrow> string" where
  "strip_underscores s =
     rev (dropWhile (\<lambda>c. c = CHR ''_'') (rev (dropWhile (\<lambda>c. c = CHR ''_'') s)))"

text \<open>A pattern is \<^verbatim>\<open>None\<close> or a string; \<^verbatim>\<open>if pattern\<close> holds of a string that is not empty.\<close>

definition pattern_text :: "string option \<Rightarrow> string" where
  "pattern_text pattern = (case pattern of None \<Rightarrow> [] | Some p \<Rightarrow> p)"

text \<open>
  Lines 63-72 of \<^verbatim>\<open>set_command\<close>:
  \<^verbatim>\<open>
  if pattern and fap.varkw is None:
      pargs = set(args_re.findall(pattern))
      kwoargs = set(fap.kwonlyargs)
      missings = pargs - kwoargs
      if missings:
          raise ValueError("Following pattern's named groups don't fit in function's keyword arguments: %s" % missings)
      else:
          unsued = kwoargs - pargs
          if unsued:
              logger.warning("Unused function's arguments: %s" % unused)
  \<close>
  The set differences are lists without repetition. The name \<^verbatim>\<open>unused\<close> of line 72 is
  bound nowhere in the module (the local is \<^verbatim>\<open>unsued\<close>), so evaluating the argument
  of \<^verbatim>\<open>logger.warning\<close> raises \<^verbatim>\<open>NameError\<close> before anything is logged.
\<close>

definition check_named_groups :: "string option \<Rightarrow> callback \<Rightarrow> exn option" where
  "check_named_groups pattern callback =
     (if pattern_text pattern \<noteq> [] \<and> cb_varkw callback = None then
        (let pargs = remdups (args_re_findall (pattern_text pattern));
             kwoargs = remdups (cb_kwonlyargs callback);
             missings = filter (\<lambda>g. g \<notin> set kwoargs) pargs
         in if missings \<noteq> [] then Some (ValueError_groups missings)
            else (let unsued = filter (\<lambda>a. a \<notin> set pargs) kwoargs
                  in if unsued \<noteq> [] then Some (NameError ''unused'') else None))
      else None)"

text \<open>
  \<^verbatim>\<open>set_command\<close> (lines 50-75). \<open>re_compile\<close> is \<^verbatim>\<open>re.compile\<close>, which
  raises on a text that is not a regular expression. The log entry of lines 53-58 changes
  nothing and is left out.
\<close>

definition set_command ::
  "(string \<Rightarrow> exn + regexp) \<Rightarrow> dispatcher \<Rightarrow> string list option \<Rightarrow> string list option \<Rightarrow>
     string option \<Rightarrow> callback \<Rightarrow> store \<Rightarrow> exn + store" where
  "set_command re_compile cls channels roles pattern callback st =
     (let cmd_name = strip_underscores (cb_name callback) in
      if length (cb_args callback) < 1 \<and> cb_varargs callback = None then Inl ValueError_signature
      else (case check_named_groups pattern callback of
              Some e \<Rightarrow> Inl e
            | None \<Rightarrow>
                (case (if pattern_text pattern \<noteq> []
                       then (case re_compile (pattern_text pattern) of
                               Inl e \<Rightarrow> Inl e
                             | Inr r \<Rightarrow> Inr (Some r))
                       else Inr None) of
                   Inl e \<Rightarrow> Inl e
                 | Inr rx \<Rightarrow>
                     Inr (st\<lparr>st_commands :=
                            chain_setitem (st_commands st) (d_own cls) cmd_name
                              \<lparr>cmd_channels = channels, cmd_roles = roles,
                               cmd_regexp = rx, cmd_callback = callback\<rparr>\<rparr>))))"

text \<open>
  \<^verbatim>\<open>add_forward\<close> (lines 77-82):
  \<^verbatim>\<open>
  for channel in channels:
      if channel not in cls.__forwards__:
          cls.__forwards__[channel] = []
      cls.__forwards__[channel].append(SubBot(allow_commands, callback))
  \<close>
\<close>

definition add_forward_step :: "dispatcher \<Rightarrow> bool \<Rightarrow> callback \<Rightarrow> string \<Rightarrow> store \<Rightarrow> exn + store" where
  "add_forward_step cls allow_commands callback channel st =
     (let fw = (if \<not> chain_contains (st_forwards st) (forwards_maps cls) channel
                then chain_setitem (st_forwards st) (d_own cls) channel []
                else st_forwards st)
      in case chain_append fw (forwards_maps cls) channel
                \<lparr>sb_allow_commands = allow_commands, sb_callback = callback\<rparr> of
           None \<Rightarrow> Inl (KeyError channel)
         | Some fw' \<Rightarrow> Inr (st\<lparr>st_forwards := fw'\<rparr>))"

fun add_forward :: "dispatcher \<Rightarrow> string list \<Rightarrow> bool \<Rightarrow> callback \<Rightarrow> store \<Rightarrow> exn + store" where
  "add_forward cls [] allow_commands callback st = Inr st"
| "add_forward cls (channel # channels) allow_commands callback st =
     (case add_forward_step cls allow_commands callback channel st of
        Inl e \<Rightarrow> Inl e
      | Inr st' \<Rightarrow> add_forward cls channels allow_commands callback st')"

subsection \<open>What a registration writes, and when a class was made\<close>

text \<open>
  The pattern as line 75 stores it: \<^verbatim>\<open>re.compile(pattern) if pattern else None\<close>.
\<close>

definition compile_pattern :: "(string \<Rightarrow> exn + regexp) \<Rightarrow> string option \<Rightarrow> exn + regexp option" where
  "compile_pattern re_compile pattern =
     (if pattern_text pattern \<noteq> []
      then (case re_compile (pattern_text pattern) of Inl e \<Rightarrow> Inl e | Inr r \<Rightarrow> Inr (Some r))
      else Inr None)"

text \<open>
  \<^verbatim>\<open>__new__\<close> makes the two dictionaries of a class after its bases exist, so the
  address of a class's own layer is above the address of every layer it inherits, and
  below the next free address of every store that holds the class.
\<close>

definition created :: "store \<Rightarrow> dispatcher \<Rightarrow> bool" where
  "created st cls =
     (d_own cls < st_next st \<and>
      list_all (\<lambda>a. a < d_own cls) (d_inherited_commands cls) \<and>
      list_all (\<lambda>a. a < d_own cls) (d_inherited_forwards cls))"

definition base_created :: "store \<Rightarrow> base \<Rightarrow> bool" where
  "base_created st b = (case b of PlainBase \<Rightarrow> True | DispatcherBase d \<Rightarrow> created st d)"

section \<open>The dispatch engine\<close>

text \<open>
  \<^verbatim>\<open>TheNumberOne.on_message\<close> (lines 103-164). What the engine does to the outside
  is a list of events in the order they happen: a forward subscription called with the
  message, a text sent to a channel with \<^verbatim>\<open>send_message\<close>, a command callback
  called with the message and its keyword arguments. The run ends by returning or by an
  exception that leaves \<^verbatim>\<open>on_message\<close>. The registries are only read here, and one
  message is processed by one sequential run, so suspension at an \<^verbatim>\<open>await\<close> changes
  nothing in what the run does. \<^verbatim>\<open>send_message\<close> is the transport's and is taken to
  return. The entries written to the log change nothing else and are left out.
\<close>

datatype event =
    Forward_call subbot message
  | Send_message string string
  | Command_call callback message kwargs

datatype outcome = Returned | Propagated exn

datatype flow = Continue | Return | Raise exn

datatype invocation = Parsed string string | Discarded | Unpack_failed exn

record env =
  PREFIX :: string
  self_user_id :: string
  format_names :: "string list \<Rightarrow> string"
    \<comment> \<open>how an f-string prints \<^verbatim>\<open>cmd.channels\<close> and \<^verbatim>\<open>cmd.roles\<close>\<close>

definition forwarder_get :: "store \<Rightarrow> dispatcher \<Rightarrow> string \<Rightarrow> subbot list" where
  "forwarder_get st self channel =
     (case chain_get (st_forwards st) (forwards_maps self) channel of
        None \<Rightarrow> []
      | Some subbots \<Rightarrow> subbots)"

definition dispatcher_get :: "store \<Rightarrow> dispatcher \<Rightarrow> string \<Rightarrow> command option" where
  "dispatcher_get st self cmd_name = chain_get (st_commands st) (commands_maps self) cmd_name"

text \<open>Lines 107-114: the loop over the subscriptions of the message's channel.\<close>

fun forward_pass :: "message \<Rightarrow> subbot list \<Rightarrow> event list \<times> flow" where
  "forward_pass m [] = ([], Continue)"
| "forward_pass m (subbot # rest) =
     (case cb_call (sb_callback subbot) m [] of
        Some e \<Rightarrow> ([Forward_call subbot m], Raise e)
      | None \<Rightarrow>
          if \<not> sb_allow_commands subbot then ([Forward_call subbot m], Return)
          else (case forward_pass m rest of (evs, fl) \<Rightarrow> (Forward_call subbot m # evs, fl)))"

text \<open>\<^verbatim>\<open>str.split(" ", maxsplit)\<close>: at most \<open>maxsplit\<close> cuts, each at the leftmost space.\<close>

fun py_split :: "nat \<Rightarrow> string \<Rightarrow> string list" where
  "py_split 0 s = [s]"
| "py_split (Suc n) s =
     (if CHR '' '' \<in> set s
      then takeWhile (\<lambda>c. c \<noteq> CHR '' '') s # py_split n (drop 1 (dropWhile (\<lambda>c. c \<noteq> CHR '' '') s))
      else [s])"

text \<open>
  \<^verbatim>\<open>cmd_name, *payload = parts\<close> and, line 124,
  \<^verbatim>\<open>payload = payload[0] if payload else ""\<close>.
\<close>

fun unpack :: "string list \<Rightarrow> invocation" where
  "unpack [] = Unpack_failed ValueError_unpack"
| "unpack [cmd_name] = Parsed cmd_name []"
| "unpack (cmd_name # payload # _) = Parsed cmd_name payload"

text \<open>Lines 116-123.\<close>

definition parse_invocation :: "env \<Rightarrow> message \<Rightarrow> invocation" where
  "parse_invocation env m =
     (if startswith (msg_content m) (PREFIX env) then
        unpack (py_split 1 (drop 1 (msg_content m)))
      else if startswith (msg_content m) (''<@'' @ self_user_id env @ ''>'') then
        unpack (drop 1 (py_split 2 (msg_content m)))
      else if msg_channel_public m then Discarded
      else unpack (py_split 1 (msg_content m)))"

subsection \<open>The texts sent\<close>

definition dquote :: char where "dquote = CHR 0x22"
definition backtick :: char where "backtick = CHR 0x60"
definition e_circumflex :: char where "e_circumflex = CHR 0xEA"
definition e_acute :: char where "e_acute = CHR 0xE9"

definition addressed :: "message \<Rightarrow> string \<Rightarrow> string" where
  "addressed m cmd_name =
     ''<@'' @ msg_author_id m @ ''>, la commande '' @ [dquote] @ cmd_name @ [dquote]"

definition unknown_text :: "message \<Rightarrow> string \<Rightarrow> string" where
  "unknown_text m cmd_name =
     addressed m cmd_name @ '' n'existe pas. Faites '' @ [backtick] @ ''!help'' @ [backtick]
       @ '' pour la liste des commandes.''"

definition channels_text :: "env \<Rightarrow> message \<Rightarrow> string \<Rightarrow> string list \<Rightarrow> string" where
  "channels_text env m cmd_name channels =
     addressed m cmd_name @ '' n'est disponible que dans les salons suivants: ''
       @ format_names env channels @ ''.''"

definition roles_text :: "env \<Rightarrow> message \<Rightarrow> string \<Rightarrow> string list \<Rightarrow> string" where
  "roles_text env m cmd_name roles =
     addressed m cmd_name @ '' n'est disponible que pour les roles suivants: ''
       @ format_names env roles @ ''.''"

definition usage_text :: "message \<Rightarrow> string \<Rightarrow> string \<Rightarrow> string" where
  "usage_text m cmd_name pattern =
     addressed m cmd_name @ '' n'a pas pu '' @ [e_circumflex] @ ''tre ex'' @ [e_acute] @ ''cut''
       @ [e_acute] @ ''e car elle r'' @ [e_acute] @ ''pond au pattern suivant: ''
       @ [backtick, backtick, backtick] @ pattern @ [dquote] @ [backtick, backtick, backtick]"

definition internal_error_text :: string where
  "internal_error_text = ''Internal error...''"

subsection \<open>Resolution, scopes, pattern, call\<close>

text \<open>Lines 157-164: the call in its \<^verbatim>\<open>try\<close>, with \<^verbatim>\<open>except Exception\<close>.\<close>

definition invoke :: "message \<Rightarrow> command \<Rightarrow> kwargs \<Rightarrow> event list \<times> outcome" where
  "invoke m cmd kwargs =
     (case cb_call (cmd_callback cmd) m kwargs of
        None \<Rightarrow> ([Command_call (cmd_callback cmd) m kwargs], Returned)
      | Some exc \<Rightarrow>
          if is_Exception exc
          then ([Command_call (cmd_callback cmd) m kwargs,
                 Send_message (msg_channel_name m) internal_error_text], Returned)
          else ([Command_call (cmd_callback cmd) m kwargs], Propagated exc))"

text \<open>Lines 142-155: the pattern, then the cast, both before the \<^verbatim>\<open>try\<close>.\<close>

definition match_and_call :: "message \<Rightarrow> string \<Rightarrow> string \<Rightarrow> command \<Rightarrow> event list \<times> outcome" where
  "match_and_call m cmd_name payload cmd =
     (case cmd_regexp cmd of
        Some regexp \<Rightarrow>
          (case rx_match regexp payload of
             None \<Rightarrow>
               ([Send_message (msg_channel_name m) (usage_text m cmd_name (rx_pattern regexp))],
                Returned)
           | Some match \<Rightarrow>
               (case cast_using_type_hints (cb_type_hints (cmd_callback cmd)) (m_groupdict match) of
                  Inl e \<Rightarrow> ([], Propagated e)
                | Inr kwargs \<Rightarrow> invoke m cmd kwargs))
      | None \<Rightarrow> invoke m cmd [])"

text \<open>Lines 126-140: the lookup and the two scopes.\<close>

definition dispatch :: "env \<Rightarrow> store \<Rightarrow> dispatcher \<Rightarrow> message \<Rightarrow> string \<Rightarrow> string \<Rightarrow> event list \<times> outcome" where
  "dispatch env st self m cmd_name payload =
     (case dispatcher_get st self cmd_name of
        None \<Rightarrow> ([Send_message (msg_channel_name m) (unknown_text m cmd_name)], Returned)
      | Some cmd \<Rightarrow>
          (case (case cmd_channels cmd of
                   None \<Rightarrow> None
                 | Some channels \<Rightarrow>
                     if msg_channel_name m \<notin> set channels then Some channels else None) of
             Some channels \<Rightarrow>
               ([Send_message (msg_channel_name m) (channels_text env m cmd_name channels)], Returned)
           | None \<Rightarrow>
               (case cmd_roles cmd of
                  None \<Rightarrow> match_and_call m cmd_name payload cmd
                | Some roles \<Rightarrow>
                    (case msg_author_roles m of
                       None \<Rightarrow> ([], Propagated (AttributeError ''roles''))
                     | Some held \<Rightarrow>
                         if find (\<lambda>role. role \<in> set roles) held = None
                         then ([Send_message (msg_channel_name m) (roles_text env m cmd_name roles)],
                               Returned)
                         else match_and_call m cmd_name payload cmd))))"

definition on_message :: "env \<Rightarrow> store \<Rightarrow> dispatcher \<Rightarrow> message \<Rightarrow> event list \<times> outcome" where
  "on_message env st self m =
     (if msg_author_id m = self_user_id env then ([], Returned)
      else (case forward_pass m (forwarder_get st self (msg_channel_name m)) of
              (fw, Raise e) \<Rightarrow> (fw, Propagated e)
            | (fw, Return) \<Rightarrow> (fw, Returned)
            | (fw, Continue) \<Rightarrow>
                (case parse_invocation env m of
                   Discarded \<Rightarrow> (fw, Returned)
                 | Unpack_failed e \<Rightarrow> (fw, Propagated e)
                 | Parsed cmd_name payload \<Rightarrow>
                     (case dispatch env st self m cmd_name payload of
                        (evs, out) \<Rightarrow> (fw @ evs, out)))))"

subsection \<open>Reading a run\<close>

text \<open>The subscriptions called in a run, in the order of the calls.\<close>

fun forwarded :: "event list \<Rightarrow> subbot list" where
  "forwarded [] = []"
| "forwarded (Forward_call s m # evs) = s # forwarded evs"
| "forwarded (_ # evs) = forwarded evs"

text \<open>A subscription after which the loop of lines 107-114 goes on: it returns and allows commands.\<close>

definition passes :: "message \<Rightarrow> subbot \<Rightarrow> bool" where
  "passes m s = (cb_call (sb_callback s) m [] = None \<and> sb_allow_commands s)"

section \<open>Sample inputs\<close>

text \<open>
  Concrete inputs on which the theorems below are instantiated. \<open>ping\<close> is the command
  of lines 190-193; \<open>listener\<close> is a callback that takes the message and returns.
\<close>

definition sample_env :: env where
  "sample_env = \<lparr>PREFIX = ''!'', self_user_id = ''1000'', format_names = concat\<rparr>"

definition listener :: "string \<Rightarrow> callback" where
  "listener name =
     \<lparr>cb_name = name, cb_args = [''message''], cb_varargs = None, cb_varkw = None,
      cb_kwonlyargs = [], cb_type_hints = [], cb_call = (\<lambda>m kwargs. None)\<rparr>"

definition ping :: callback where
  "ping = listener ''ping''"

definition message_in :: "string \<Rightarrow> string \<Rightarrow> message" where
  "message_in channel content =
     \<lparr>msg_author_id = ''42'', msg_author_roles = Some [''member''],
      msg_channel_name = channel, msg_channel_public = True, msg_content = content\<rparr>"

definition root_class :: dispatcher where
  "root_class = \<lparr>d_own = 0, d_inherited_commands = [], d_inherited_forwards = []\<rparr>"

definition root_store :: store where
  "root_store = \<lparr>st_commands = (\<lambda>_. [])(0 := []), st_forwards = (\<lambda>_. [])(0 := []), st_next = 1\<rparr>"

definition sub :: "bool \<Rightarrow> string \<Rightarrow> subbot" where
  "sub allow name = \<lparr>sb_allow_commands = allow, sb_callback = listener name\<rparr>"

definition three_forwards :: store where
  "three_forwards =
     root_store\<lparr>st_forwards :=
       (st_forwards root_store)
         (0 := [(''general'', [sub True ''s1'', sub False ''s2'', sub True ''s3''])])\<rparr>"

text \<open>
  A class that extends \<open>root_class\<close>, and the store after its creation
  (\<^verbatim>\<open>class Child(TheNumberOne)\<close>).
\<close>

definition child_class :: dispatcher where
  "child_class = \<lparr>d_own = 1, d_inherited_commands = [0], d_inherited_forwards = [0]\<rparr>"

definition family_store :: store where
  "family_store =
     \<lparr>st_commands = (\<lambda>_. [])(0 := [], 1 := []), st_forwards = (\<lambda>_. [])(0 := [], 1 := []),
      st_next = 2\<rparr>"

text \<open>
  Two patterns and what \<^verbatim>\<open>re\<close> makes of them. \<open>optional_word\<close> is the pattern of
  \<^verbatim>\<open>help_\<close> (line 196), an optional group of one or more characters that are not
  white space: it matches every string, and the group is absent when the string does not
  start with such a character. \<open>one_word\<close> is the same group, not optional.
  \<open>re_compile_samples\<close> is \<^verbatim>\<open>re.compile\<close> on these two texts; the samples
  compile no other text.
\<close>

definition backslash :: char where "backslash = CHR 0x5C"

definition word_at_start :: "string \<Rightarrow> string" where
  "word_at_start s = takeWhile (\<lambda>c. \<not> is_space c) s"

definition optional_word :: regexp where
  "optional_word =
     \<lparr>rx_pattern = ''(?P<cmd_name>'' @ [backslash] @ ''S+)?'',
      rx_match = (\<lambda>s. Some \<lparr>m_end = length (word_at_start s),
                            m_groupdict = [(''cmd_name'',
                              if word_at_start s = [] then None else Some (word_at_start s))]\<rparr>)\<rparr>"

definition one_word :: regexp where
  "one_word =
     \<lparr>rx_pattern = ''(?P<n>'' @ [backslash] @ ''S+)'',
      rx_match = (\<lambda>s. if word_at_start s = [] then None
                      else Some \<lparr>m_end = length (word_at_start s),
                                 m_groupdict = [(''n'', Some (word_at_start s))]\<rparr>)\<rparr>"

definition re_compile_samples :: "string \<Rightarrow> exn + regexp" where
  "re_compile_samples p =
     (if p = rx_pattern optional_word then Inr optional_word
      else if p = rx_pattern one_word then Inr one_word
      else Inl (Raised True ''re.error''))"

text \<open>
  Type constructors: \<^verbatim>\<open>str\<close>, and \<open>decimal\<close>, which reads a string of ASCII digits
  as \<^verbatim>\<open>int\<close> does and raises \<^verbatim>\<open>ValueError\<close> on every other string.
\<close>

definition py_str :: "string \<Rightarrow> exn + pyval" where
  "py_str s = Inr (PyStr s)"

definition is_digit :: "char \<Rightarrow> bool" where
  "is_digit c = (48 \<le> (of_char c :: nat) \<and> (of_char c :: nat) \<le> 57)"

definition decimal :: "string \<Rightarrow> exn + pyval" where
  "decimal s =
     (if s \<noteq> [] \<and> list_all is_digit s
      then Inr (PyInt (int (foldl (\<lambda>acc c. 10 * acc + (of_char c - 48)) 0 s)))
      else Inl (Raised True ''ValueError: invalid literal for int() with base 10''))"

text \<open>
  Handlers. \<open>describe\<close> has the signature of \<^verbatim>\<open>help_\<close> (line 197:
  \<^verbatim>\<open>(message, *_, cmd_name: str = "")\<close>); \<open>count\<close> is
  \<^verbatim>\<open>(message, *, n: int)\<close>; \<open>count_two\<close> is \<^verbatim>\<open>(message, *, n: int, step: int = 1)\<close>;
  \<open>bare\<close> is \<^verbatim>\<open>(*, x)\<close>, with no positional parameter. Their bodies return.
\<close>

definition describe :: callback where
  "describe =
     \<lparr>cb_name = ''describe_'', cb_args = [''message''], cb_varargs = Some ''_'', cb_varkw = None,
      cb_kwonlyargs = [''cmd_name''], cb_type_hints = [(''cmd_name'', py_str)],
      cb_call = (\<lambda>m kwargs. None)\<rparr>"

definition count :: callback where
  "count =
     \<lparr>cb_name = ''count'', cb_args = [''message''], cb_varargs = None, cb_varkw = None,
      cb_kwonlyargs = [''n''], cb_type_hints = [(''n'', decimal)],
      cb_call = (\<lambda>m kwargs. None)\<rparr>"

definition count_two :: callback where
  "count_two =
     \<lparr>cb_name = ''count'', cb_args = [''message''], cb_varargs = None, cb_varkw = None,
      cb_kwonlyargs = [''n'', ''step''], cb_type_hints = [(''n'', decimal), (''step'', decimal)],
      cb_call = (\<lambda>m kwargs. None)\<rparr>"

definition bare :: callback where
  "bare =
     \<lparr>cb_name = ''bare'', cb_args = [], cb_varargs = None, cb_varkw = None,
      cb_kwonlyargs = [''x''], cb_type_hints = [], cb_call = (\<lambda>m kwargs. None)\<rparr>"

text \<open>The command that \<open>root_class\<close> holds for \<open>ping\<close>.\<close>

definition root_ping :: command where
  "root_ping = \<lparr>cmd_channels = None, cmd_roles = None, cmd_regexp = None, cmd_callback = ping\<rparr>"

text \<open>
  The family after \<open>root_class\<close> registered the forward \<^verbatim>\<open>s1\<close> for the channel
  \<^verbatim>\<open>general\<close>, and after \<open>child_class\<close> then registered \<^verbatim>\<open>s2\<close> for the same
  channel.
\<close>

definition family_forward_root :: store where
  "family_forward_root =
     family_store\<lparr>st_forwards := (st_forwards family_store)(0 := [(''general'', [sub True ''s1''])])\<rparr>"

definition family_forward_both :: store where
  "family_forward_both =
     family_forward_root\<lparr>st_forwards :=
       (st_forwards family_forward_root)(0 := [(''general'', [sub True ''s1'', sub False ''s2''])])\<rparr>"

text \<open>
  \<open>explode\<close> is a handler whose body raises. \<open>plugins_store\<close> is \<open>root_store\<close>
  after \<open>ping\<close>, \<open>describe\<close>, \<open>count\<close> and \<open>explode\<close> were registered, the second and
  third with their patterns. \<open>long_prefix_env\<close> configures a prefix of two characters.
\<close>

definition explode :: callback where
  "explode =
     \<lparr>cb_name = ''explode'', cb_args = [''message''], cb_varargs = None, cb_varkw = None,
      cb_kwonlyargs = [], cb_type_hints = [],
      cb_call = (\<lambda>m kwargs. Some (Raised True ''RuntimeError''))\<rparr>"

definition describe_cmd :: command where
  "describe_cmd =
     \<lparr>cmd_channels = None, cmd_roles = None, cmd_regexp = Some optional_word,
      cmd_callback = describe\<rparr>"

definition count_cmd :: command where
  "count_cmd =
     \<lparr>cmd_channels = None, cmd_roles = None, cmd_regexp = Some one_word, cmd_callback = count\<rparr>"

definition explode_cmd :: command where
  "explode_cmd =
     \<lparr>cmd_channels = None, cmd_roles = None, cmd_regexp = None, cmd_callback = explode\<rparr>"

definition plugins_store :: store where
  "plugins_store =
     root_store\<lparr>st_commands :=
       (st_commands root_store)
         (0 := [(''ping'', root_ping), (''describe'', describe_cmd), (''count'', count_cmd),
                (''explode'', explode_cmd)])\<rparr>"

definition long_prefix_env :: env where
  "long_prefix_env = sample_env\<lparr>PREFIX := ''!!''\<rparr>"

text \<open>A message in a private channel, whose author has no roles attribute.\<close>

definition direct_message :: "string \<Rightarrow> message" where
  "direct_message content =
     \<lparr>msg_author_id = ''42'', msg_author_roles = None, msg_channel_name = ''dm'',
      msg_channel_public = False, msg_content = content\<rparr>"

text \<open>
  Three generations: \<open>grandchild_class\<close> extends \<open>child_class\<close>, which extends
  \<open>root_class\<close>; \<open>lineage_store\<close> is the store after the three were made.
  \<open>describe_number\<close> is a handler \<^verbatim>\<open>_describe(message, *, n: int)\<close>, whose name
  strips to the name of \<open>describe\<close>; the grandchild registers it for the channel
  \<^verbatim>\<open>general\<close> with the pattern \<open>one_word\<close>, the root registers \<open>describe\<close> with the
  pattern \<open>optional_word\<close>. In \<open>root_described\<close>, \<open>lineage_described\<close> and
  \<open>lineage_shadowed\<close> the root registers before its descendants are made and the
  grandchild registers last; in \<open>lineage_grandchild_first\<close> and
  \<open>lineage_root_second\<close> the grandchild registers before the root.
\<close>

definition grandchild_class :: dispatcher where
  "grandchild_class = \<lparr>d_own = 2, d_inherited_commands = [1, 0], d_inherited_forwards = [1, 0]\<rparr>"

definition lineage_store :: store where
  "lineage_store =
     \<lparr>st_commands = (\<lambda>_. [])(0 := [], 1 := [], 2 := []),
      st_forwards = (\<lambda>_. [])(0 := [], 1 := [], 2 := []), st_next = 3\<rparr>"

definition describe_number :: callback where
  "describe_number =
     \<lparr>cb_name = ''_describe'', cb_args = [''message''], cb_varargs = None, cb_varkw = None,
      cb_kwonlyargs = [''n''], cb_type_hints = [(''n'', decimal)],
      cb_call = (\<lambda>m kwargs. None)\<rparr>"

definition grandchild_describe :: command where
  "grandchild_describe =
     \<lparr>cmd_channels = Some [''general''], cmd_roles = None, cmd_regexp = Some one_word,
      cmd_callback = describe_number\<rparr>"

definition root_described :: store where
  "root_described =
     root_store\<lparr>st_commands := (st_commands root_store)(0 := [(''describe'', describe_cmd)])\<rparr>"

definition lineage_described :: store where
  "lineage_described =
     \<lparr>st_commands = (\<lambda>_. [])(0 := [(''describe'', describe_cmd)], 1 := [], 2 := []),
      st_forwards = (\<lambda>_. [])(0 := [], 1 := [], 2 := []), st_next = 3\<rparr>"

definition lineage_shadowed :: store where
  "lineage_shadowed =
     lineage_described\<lparr>st_commands :=
       (st_commands lineage_described)(2 := [(''describe'', grandchild_describe)])\<rparr>"

definition lineage_grandchild_first :: store where
  "lineage_grandchild_first =
     lineage_store\<lparr>st_commands :=
       (st_commands lineage_store)(2 := [(''describe'', grandchild_describe)])\<rparr>"

definition lineage_root_second :: store where
  "lineage_root_second =
     lineage_grandchild_first\<lparr>st_commands :=
       (st_commands lineage_grandchild_first)(0 := [(''describe'', describe_cmd)])\<rparr>"

section \<open>The words of the claims\<close>

text \<open>The commands called in a run, each with its keyword arguments, in order.\<close>

fun called :: "event list \<Rightarrow> (callback \<times> kwargs) list" where
  "called [] = []"
| "called (Command_call cb m kwargs # evs) = (cb, kwargs) # called evs"
| "called (_ # evs) = called evs"

text \<open>The texts sent in a run, in order.\<close>

fun sent :: "event list \<Rightarrow> string list" where
  "sent [] = []"
| "sent (Send_message channel text # evs) = text # sent evs"
| "sent (_ # evs) = sent evs"

text \<open>A command is scope-authorized for a message: both scopes let the message through.\<close>

definition channel_allowed :: "command \<Rightarrow> message \<Rightarrow> bool" where
  "channel_allowed cmd m =
     (case cmd_channels cmd of None \<Rightarrow> True | Some channels \<Rightarrow> msg_channel_name m \<in> set channels)"

definition role_allowed :: "command \<Rightarrow> message \<Rightarrow> bool" where
  "role_allowed cmd m =
     (case cmd_roles cmd of
        None \<Rightarrow> True
      | Some roles \<Rightarrow>
          (case msg_author_roles m of
             None \<Rightarrow> False
           | Some held \<Rightarrow> list_ex (\<lambda>role. role \<in> set roles) held))"

text \<open>
  The first whitespace-delimited token of a text, in the words of the specification: the
  first maximal run of characters that are not white space.
\<close>

definition first_token :: "string \<Rightarrow> string" where
  "first_token s = takeWhile (\<lambda>c. \<not> is_space c) (dropWhile is_space s)"

section \<open>Properties of the cast utility\<close>

lemma cast_entry_ok_pair:
  "cast_entry_ok th (key, val) (k, v) \<longleftrightarrow>
     k = key \<and>
     (case val of
        None \<Rightarrow> v = PyNone
      | Some s \<Rightarrow> (case map_of th key of None \<Rightarrow> v = PyStr s | Some ty \<Rightarrow> ty s = Inr v))"
  by (simp add: cast_entry_ok_def split: option.splits)

lemma conversion_succeeds_pair:
  "conversion_succeeds th (key, val) \<longleftrightarrow>
     (case val of
        None \<Rightarrow> True
      | Some s \<Rightarrow> (case map_of th key of None \<Rightarrow> True | Some ty \<Rightarrow> returns (ty s)))"
  by (simp add: conversion_succeeds_def split: option.splits)

lemma cast_Inr_iff:
  "cast_using_type_hints th kw = Inr res \<longleftrightarrow> list_all2 (cast_entry_ok th) kw res"
proof (induction kw arbitrary: res)
  case Nil
  show ?case by auto
next
  case (Cons item items)
  obtain key val where item: "item = (key, val)" by (cases item)
  show ?case
  proof (cases res)
    case Nil
    then show ?thesis
      by (simp add: item split: sum.splits option.splits)
  next
    case (Cons r rs)
    then show ?thesis
      using Cons.IH [of rs]
      by (cases r) (auto simp: item cast_entry_ok_pair split: sum.splits option.splits)
  qed
qed

lemma cast_total:
  "list_all (conversion_succeeds th) kw \<Longrightarrow> returns (cast_using_type_hints th kw)"
proof (induction kw)
  case Nil
  show ?case by (simp add: returns_def)
next
  case (Cons item items)
  obtain key val where item: "item = (key, val)" by (cases item)
  from Cons show ?case
    by (auto simp: item conversion_succeeds_pair returns_def split: sum.splits option.splits)
qed

text \<open>
  C3. For every type-hint mapping and every raw-capture mapping, the mappings the cast
  utility returns are exactly those that keep the keys in order and where an absent
  (\<open>None\<close>) value stays \<open>PyNone\<close>, a present string whose key has a recorded type is
  the constructor applied to the string, and a present string whose key has no recorded
  type stays that string; a mapping is returned whenever every constructor called returns.
  With a type recorded for \<open>a\<close> only, the captures \<open>a = "5"\<close>, \<open>b\<close> absent give
  \<open>{a: typed 5, b: None}\<close>.
\<close>

theorem cast_using_type_hints_spec:
  "(cast_using_type_hints th kw = Inr res \<longleftrightarrow> list_all2 (cast_entry_ok th) kw res) \<and>
   (list_all (conversion_succeeds th) kw \<longrightarrow> returns (cast_using_type_hints th kw)) \<and>
   (a \<noteq> b \<and> ty ''5'' = Inr v \<longrightarrow>
      cast_using_type_hints [(a, ty)] [(a, Some ''5''), (b, None)] = Inr [(a, v), (b, PyNone)])"
  using cast_Inr_iff [of th kw res] cast_total [of th kw] by auto

theorem cast_using_type_hints_spec_witness:
  "cast_using_type_hints [(''a'', \<lambda>s. Inr (PyInt 5))] [(''a'', Some ''5''), (''b'', None)]
     = Inr [(''a'', PyInt 5), (''b'', PyNone)] \<and>
   list_all2 (cast_entry_ok [(''a'', \<lambda>s. Inr (PyInt 5))])
     [(''a'', Some ''5''), (''b'', None)] [(''a'', PyInt 5), (''b'', PyNone)] \<and>
   list_all (conversion_succeeds [(''a'', \<lambda>s. Inr (PyInt 5))]) [(''a'', Some ''5''), (''b'', None)]"
  using cast_using_type_hints_spec
    [of "[(''a'', \<lambda>s. Inr (PyInt 5))]" "[(''a'', Some ''5''), (''b'', None)]"
        "[(''a'', PyInt 5), (''b'', PyNone)]" "''a''" "''b''" "\<lambda>s. Inr (PyInt 5)" "PyInt 5"]
  by (simp add: conversion_succeeds_pair cast_entry_ok_pair returns_def)

section \<open>Forwarding\<close>






lemma forward_pass_events:
  "fst (forward_pass m subs) =
     map (\<lambda>s. Forward_call s m) (takeWhile (passes m) subs @ take 1 (dropWhile (passes m) subs))"
  by (induction subs) (auto simp: passes_def split: option.splits prod.splits)


lemma forwarded_map [simp]: "forwarded (map (\<lambda>s. Forward_call s m) xs) = xs"
  by (induction xs) auto

lemma forwarded_append [simp]: "forwarded (xs @ ys) = forwarded xs @ forwarded ys"
  by (induction xs rule: forwarded.induct) auto

lemma forwarded_invoke [simp]: "forwarded (fst (invoke m cmd kw)) = []"
  by (simp add: invoke_def split: option.splits)

lemma forwarded_match_and_call [simp]: "forwarded (fst (match_and_call m n p cmd)) = []"
  by (simp add: match_and_call_def split: option.splits sum.splits)





subsection \<open>The sample inputs, evaluated\<close>

lemma message_in_fields [simp]:
  "msg_author_id (message_in c t) = ''42''"
  "msg_author_roles (message_in c t) = Some [''member'']"
  "msg_channel_name (message_in c t) = c"
  "msg_channel_public (message_in c t) = True"
  "msg_content (message_in c t) = t"
  by (simp_all add: message_in_def)

lemma listener_fields [simp]:
  "cb_name (listener n) = n"
  "cb_args (listener n) = [''message'']"
  "cb_varargs (listener n) = None"
  "cb_varkw (listener n) = None"
  "cb_kwonlyargs (listener n) = []"
  "cb_type_hints (listener n) = []"
  "cb_call (listener n) m kw = None"
  by (simp_all add: listener_def)

lemma sub_fields [simp]:
  "sb_allow_commands (sub a n) = a"
  "sb_callback (sub a n) = listener n"
  by (simp_all add: sub_def)



section \<open>Registration and the layered registries\<close>

lemma set_command_writes:
  assumes "set_command rc cls ch rl p cb st = Inr st'"
  shows "\<exists>rx. compile_pattern rc p = Inr rx \<and>
           st' = st\<lparr>st_commands :=
              chain_setitem (st_commands st) (d_own cls) (strip_underscores (cb_name cb))
                \<lparr>cmd_channels = ch, cmd_roles = rl, cmd_regexp = rx, cmd_callback = cb\<rparr>\<rparr>"
  using assms
  by (auto simp: set_command_def compile_pattern_def Let_def split: if_splits option.splits sum.splits)

lemma created_distinct:
  assumes new: "DispatcherMeta_new bases st0 = (B, st0')"
    and base: "DispatcherBase C \<in> set bases"
    and via: "d_own A \<in> set (commands_maps C)"
    and ok: "created st0 C"
  shows "d_own A \<in> set (d_inherited_commands B) \<and> d_own A \<noteq> d_own B"
proof -
  from new have own: "d_own B = st_next st0"
    and inh: "d_inherited_commands B =
      concat (map (\<lambda>b. case b of PlainBase \<Rightarrow> [] | DispatcherBase d \<Rightarrow> commands_maps d) bases)"
    by (auto simp: DispatcherMeta_new_def Let_def)
  from base via have "d_own A \<in> set (d_inherited_commands B)"
    unfolding inh by (auto intro!: bexI [of _ "DispatcherBase C"])
  moreover from via ok have "d_own A < st_next st0"
    by (auto simp: created_def commands_maps_def list_all_iff)
  ultimately show ?thesis using own by simp
qed

lemma DispatcherMeta_new_created:
  assumes new: "DispatcherMeta_new bases st = (B, st')"
    and ok: "list_all (base_created st) bases"
  shows "created st' B \<and> (\<forall>d. created st d \<longrightarrow> created st' d) \<and>
         (\<forall>a. a < st_next st \<longrightarrow> st_commands st' a = st_commands st a \<and>
                                   st_forwards st' a = st_forwards st a)"
proof -
  from new have B: "B = \<lparr>d_own = st_next st,
       d_inherited_commands = concat (map (\<lambda>b. case b of PlainBase \<Rightarrow> [] | DispatcherBase d \<Rightarrow> commands_maps d) bases),
       d_inherited_forwards = concat (map (\<lambda>b. case b of PlainBase \<Rightarrow> [] | DispatcherBase d \<Rightarrow> forwards_maps d) bases)\<rparr>"
    and st': "st' = st\<lparr>st_commands := (st_commands st)(st_next st := []),
             st_forwards := (st_forwards st)(st_next st := []),
             st_next := Suc (st_next st)\<rparr>"
    by (auto simp: DispatcherMeta_new_def Let_def)
  have "created st' B"
    using ok unfolding B st'
    by (auto simp: created_def base_created_def list_all_iff commands_maps_def forwards_maps_def
        split: base.splits)
      (blast intro: less_trans)+
  moreover have "created st' d" if "created st d" for d
    using that by (simp add: created_def st')
  ultimately show ?thesis by (simp add: st')
qed

lemma set_command_created:
  "set_command rc cls ch rl p cb st = Inr st' \<Longrightarrow> created st d \<Longrightarrow> created st' d"
  by (drule set_command_writes) (auto simp: created_def)


lemma own_layer_first:
  "map_of (st_commands st (d_own cls)) name = Some cmd \<Longrightarrow> dispatcher_get st cls name = Some cmd"
  by (simp add: dispatcher_get_def commands_maps_def)

lemma set_command_layers:
  assumes reg: "set_command rc cls ch rl p cb st = Inr st'"
    and comp: "compile_pattern rc p = Inr rx"
  shows "map_of (st_commands st' (d_own cls)) (strip_underscores (cb_name cb)) =
           Some \<lparr>cmd_channels = ch, cmd_roles = rl, cmd_regexp = rx, cmd_callback = cb\<rparr> \<and>
         (\<forall>a. a \<noteq> d_own cls \<longrightarrow> st_commands st' a = st_commands st a)"
proof -
  from set_command_writes [OF reg] comp have
    "st' = st\<lparr>st_commands :=
        chain_setitem (st_commands st) (d_own cls) (strip_underscores (cb_name cb))
          \<lparr>cmd_channels = ch, cmd_roles = rl, cmd_regexp = rx, cmd_callback = cb\<rparr>\<rparr>"
    by auto
  then show ?thesis by (simp add: chain_setitem_def update_conv')
qed

text \<open>
  C4. Let \<open>B\<close> be made by \<^verbatim>\<open>DispatcherMeta.__new__\<close> with the dispatcher \<open>C\<close> among
  its bases, and let \<open>A\<close> be \<open>C\<close> or any ancestor of \<open>C\<close>: a class whose own layer is
  one of \<open>C\<close>'s layers. Let \<open>A\<close> and \<open>B\<close> each register a command whose callback
  name strips to the same \<open>name\<close>, from any store and in either order, with anything
  between the two registrations that leaves the first one's own layer as it was (the
  making of classes, registrations of other classes). \<open>rxA\<close> and \<open>rxB\<close> are what line
  75 makes of the two patterns. Then \<open>A\<close>'s own layer is one of the layers \<open>B\<close>
  inherits; a lookup of \<open>name\<close> in \<open>B\<close> gives exactly \<open>B\<close>'s definition, with
  \<open>B\<close>'s channels, roles, compiled pattern and callback; \<open>A\<close>'s own layer holds exactly
  \<open>A\<close>'s definition; and the registration of \<open>B\<close> leaves \<open>A\<close>'s own layer as it was.
\<close>

theorem command_shadowing:
  assumes new: "DispatcherMeta_new bases st0 = (B, st0')"
    and base: "DispatcherBase C \<in> set bases"
    and via: "d_own A \<in> set (commands_maps C)"
    and ok: "created st0 C"
    and nameA: "strip_underscores (cb_name cbA) = name"
    and nameB: "strip_underscores (cb_name cbB) = name"
    and compA: "compile_pattern rc pA = Inr rxA"
    and compB: "compile_pattern rc pB = Inr rxB"
  shows "d_own A \<in> set (d_inherited_commands B) \<and>
    (set_command rc A chA rlA pA cbA st = Inr st1 \<and>
     st_commands st1' (d_own A) = st_commands st1 (d_own A) \<and>
     set_command rc B chB rlB pB cbB st1' = Inr st2 \<longrightarrow>
       dispatcher_get st2 B name =
         Some \<lparr>cmd_channels = chB, cmd_roles = rlB, cmd_regexp = rxB, cmd_callback = cbB\<rparr> \<and>
       map_of (st_commands st2 (d_own A)) name =
         Some \<lparr>cmd_channels = chA, cmd_roles = rlA, cmd_regexp = rxA, cmd_callback = cbA\<rparr> \<and>
       st_commands st2 (d_own A) = st_commands st1 (d_own A)) \<and>
    (set_command rc B chB rlB pB cbB st = Inr st1 \<and>
     st_commands st1' (d_own B) = st_commands st1 (d_own B) \<and>
     set_command rc A chA rlA pA cbA st1' = Inr st2 \<longrightarrow>
       dispatcher_get st2 B name =
         Some \<lparr>cmd_channels = chB, cmd_roles = rlB, cmd_regexp = rxB, cmd_callback = cbB\<rparr> \<and>
       map_of (st_commands st2 (d_own A)) name =
         Some \<lparr>cmd_channels = chA, cmd_roles = rlA, cmd_regexp = rxA, cmd_callback = cbA\<rparr> \<and>
       st_commands st1 (d_own A) = st_commands st (d_own A))"
proof -
  from created_distinct [OF new base via ok]
  have anc: "d_own A \<in> set (d_inherited_commands B)" and ne: "d_own A \<noteq> d_own B"
    by simp_all
  have first: "dispatcher_get st2 B name =
         Some \<lparr>cmd_channels = chB, cmd_roles = rlB, cmd_regexp = rxB, cmd_callback = cbB\<rparr> \<and>
       map_of (st_commands st2 (d_own A)) name =
         Some \<lparr>cmd_channels = chA, cmd_roles = rlA, cmd_regexp = rxA, cmd_callback = cbA\<rparr> \<and>
       st_commands st2 (d_own A) = st_commands st1 (d_own A)"
    if a: "set_command rc A chA rlA pA cbA st = Inr st1"
      and keep: "st_commands st1' (d_own A) = st_commands st1 (d_own A)"
      and b: "set_command rc B chB rlB pB cbB st1' = Inr st2" for st st1 st1' st2
  proof -
    from set_command_layers [OF a compA] nameA
    have la: "map_of (st_commands st1 (d_own A)) name =
        Some \<lparr>cmd_channels = chA, cmd_roles = rlA, cmd_regexp = rxA, cmd_callback = cbA\<rparr>"
      by simp
    from set_command_layers [OF b compB] nameB
    have lb: "map_of (st_commands st2 (d_own B)) name =
        Some \<lparr>cmd_channels = chB, cmd_roles = rlB, cmd_regexp = rxB, cmd_callback = cbB\<rparr>"
      and other: "\<forall>a. a \<noteq> d_own B \<longrightarrow> st_commands st2 a = st_commands st1' a"
      by simp_all
    from other ne keep have same: "st_commands st2 (d_own A) = st_commands st1 (d_own A)"
      by simp
    from own_layer_first [OF lb] la same show ?thesis by simp
  qed
  have second: "dispatcher_get st2 B name =
         Some \<lparr>cmd_channels = chB, cmd_roles = rlB, cmd_regexp = rxB, cmd_callback = cbB\<rparr> \<and>
       map_of (st_commands st2 (d_own A)) name =
         Some \<lparr>cmd_channels = chA, cmd_roles = rlA, cmd_regexp = rxA, cmd_callback = cbA\<rparr> \<and>
       st_commands st1 (d_own A) = st_commands st (d_own A)"
    if b: "set_command rc B chB rlB pB cbB st = Inr st1"
      and keep: "st_commands st1' (d_own B) = st_commands st1 (d_own B)"
      and a: "set_command rc A chA rlA pA cbA st1' = Inr st2" for st st1 st1' st2
  proof -
    from set_command_layers [OF b compB] nameB
    have lb: "map_of (st_commands st1 (d_own B)) name =
        Some \<lparr>cmd_channels = chB, cmd_roles = rlB, cmd_regexp = rxB, cmd_callback = cbB\<rparr>"
      and otherB: "\<forall>a. a \<noteq> d_own B \<longrightarrow> st_commands st1 a = st_commands st a"
      by simp_all
    from set_command_layers [OF a compA] nameA
    have la: "map_of (st_commands st2 (d_own A)) name =
        Some \<lparr>cmd_channels = chA, cmd_roles = rlA, cmd_regexp = rxA, cmd_callback = cbA\<rparr>"
      and otherA: "\<forall>a. a \<noteq> d_own A \<longrightarrow> st_commands st2 a = st_commands st1' a"
      by simp_all
    from otherA ne keep have "st_commands st2 (d_own B) = st_commands st1 (d_own B)"
      by (metis)
    with lb have "map_of (st_commands st2 (d_own B)) name =
        Some \<lparr>cmd_channels = chB, cmd_roles = rlB, cmd_regexp = rxB, cmd_callback = cbB\<rparr>"
      by simp
    from own_layer_first [OF this] la otherB ne show ?thesis by simp
  qed
  from anc first second show ?thesis by blast
qed

lemma child_created:
  "DispatcherMeta_new [PlainBase, DispatcherBase root_class] root_store = (child_class, family_store)"
  by (simp add: DispatcherMeta_new_def root_store_def root_class_def child_class_def
      family_store_def commands_maps_def forwards_maps_def)

lemma strip_samples [simp]:
  "strip_underscores ''ping'' = ''ping''"
  "strip_underscores ''__ping_'' = ''ping''"
  "strip_underscores ''describe_'' = ''describe''"
  "strip_underscores ''count'' = ''count''"
  "strip_underscores ''bare'' = ''bare''"
  by (simp_all add: strip_underscores_def)

text \<open>
  C5, evaluated. \<open>root_class\<close> registers a forward for \<^verbatim>\<open>general\<close>, then
  \<open>child_class\<close>, which extends it, registers one for the same channel. Line 80 asks the
  whole chain for the channel, so no list is created in the child's own layer, and line 82
  appends to the list that the root's layer holds: the root's own list grows by the child's
  subscription, and the child's effective list is the merged one.
\<close>

theorem child_forward_extends_root_list:
  "add_forward root_class [''general''] True (listener ''s1'') family_store
     = Inr family_forward_root \<and>
   add_forward child_class [''general''] False (listener ''s2'') family_forward_root
     = Inr family_forward_both \<and>
   map_of (st_forwards family_forward_root (d_own root_class)) ''general'' = Some [sub True ''s1''] \<and>
   map_of (st_forwards family_forward_both (d_own root_class)) ''general''
     = Some [sub True ''s1'', sub False ''s2''] \<and>
   map_of (st_forwards family_forward_both (d_own child_class)) ''general'' = None \<and>
   forwarder_get family_forward_both root_class ''general'' = [sub True ''s1'', sub False ''s2''] \<and>
   forwarder_get family_forward_both child_class ''general'' = [sub True ''s1'', sub False ''s2'']"
  by (simp add: add_forward_step_def chain_contains_def chain_setitem_def forwards_maps_def
      forwarder_get_def root_class_def child_class_def family_store_def family_forward_root_def
      family_forward_both_def sub_def)

lemma startswith_Cons [simp]:
  "startswith s [] = True"
  "startswith [] (p # ps) = False"
  "startswith (c # cs) (p # ps) = (c = p \<and> startswith cs ps)"
  by (auto simp: startswith_def)

lemma is_space_samples [simp]:
  "is_space CHR '' ''" "is_space (CHR 0x09)"
  "\<not> is_space CHR ''a''" "\<not> is_space CHR ''b''" "\<not> is_space CHR ''c''" "\<not> is_space CHR ''n''"
  "\<not> is_space CHR ''x''" "\<not> is_space CHR ''y''" "\<not> is_space CHR ''>''" 
  by (simp_all add: is_space_def)

lemma findall_y: "args_re_findall ''(?P<y>a)'' = [''y'']"
  by simp

lemma findall_one_word: "args_re_findall (rx_pattern one_word) = [''n'']"
  by (simp add: one_word_def backslash_def)

lemma findall_optional_word: "args_re_findall (rx_pattern optional_word) = [''cmd_name'']"
  by (simp add: optional_word_def backslash_def is_space_def)

lemma lineage_created:
  "DispatcherMeta_new [DispatcherBase child_class] family_store = (grandchild_class, lineage_store)"
  by (simp add: DispatcherMeta_new_def family_store_def child_class_def grandchild_class_def
      lineage_store_def commands_maps_def forwards_maps_def)

lemma lineage_created_after_root_registered:
  "DispatcherMeta_new [PlainBase, DispatcherBase root_class] root_described
     = (child_class,
        \<lparr>st_commands = (\<lambda>_. [])(0 := [(''describe'', describe_cmd)], 1 := []),
         st_forwards = (\<lambda>_. [])(0 := [], 1 := []), st_next = 2\<rparr>) \<and>
   DispatcherMeta_new [DispatcherBase child_class]
     \<lparr>st_commands = (\<lambda>_. [])(0 := [(''describe'', describe_cmd)], 1 := []),
      st_forwards = (\<lambda>_. [])(0 := [], 1 := []), st_next = 2\<rparr>
     = (grandchild_class, lineage_described)"
  by (simp add: DispatcherMeta_new_def root_described_def root_store_def root_class_def
      child_class_def grandchild_class_def lineage_described_def commands_maps_def forwards_maps_def)

lemma strip_describe:
  "strip_underscores (cb_name describe) = ''describe''"
  "strip_underscores (cb_name describe_number) = ''describe''"
  by (simp_all add: describe_def describe_number_def strip_underscores_def)

lemma compile_samples:
  "compile_pattern re_compile_samples (Some (rx_pattern optional_word)) = Inr (Some optional_word)"
  "compile_pattern re_compile_samples (Some (rx_pattern one_word)) = Inr (Some one_word)"
  by (simp_all add: compile_pattern_def pattern_text_def re_compile_samples_def)
    (simp_all add: one_word_def optional_word_def)

lemma root_registers_describe:
  "set_command re_compile_samples root_class None None (Some (rx_pattern optional_word)) describe
     root_store = Inr root_described"
  "set_command re_compile_samples root_class None None (Some (rx_pattern optional_word)) describe
     lineage_grandchild_first = Inr lineage_root_second"
  by (simp_all add: set_command_def check_named_groups_def pattern_text_def findall_optional_word
      re_compile_samples_def root_described_def lineage_root_second_def describe_cmd_def
      chain_setitem_def root_class_def root_store_def lineage_grandchild_first_def
      lineage_store_def describe_def strip_underscores_def)
    (simp_all add: optional_word_def)

lemma grandchild_registers_describe:
  "set_command re_compile_samples grandchild_class (Some [''general'']) None
     (Some (rx_pattern one_word)) describe_number lineage_described = Inr lineage_shadowed"
  "set_command re_compile_samples grandchild_class (Some [''general'']) None
     (Some (rx_pattern one_word)) describe_number lineage_store = Inr lineage_grandchild_first"
  by (simp_all add: set_command_def check_named_groups_def pattern_text_def findall_one_word
      re_compile_samples_def lineage_shadowed_def lineage_grandchild_first_def
      grandchild_describe_def chain_setitem_def grandchild_class_def lineage_described_def
      lineage_store_def describe_number_def strip_underscores_def)
    (simp_all add: one_word_def optional_word_def)

theorem command_shadowing_witness:
  "DispatcherMeta_new [DispatcherBase child_class] family_store = (grandchild_class, lineage_store) \<and>
   DispatcherBase child_class \<in> set [DispatcherBase child_class] \<and>
   d_own root_class \<in> set (commands_maps child_class) \<and>
   created family_store child_class \<and>
   strip_underscores (cb_name describe) = ''describe'' \<and>
   strip_underscores (cb_name describe_number) = ''describe'' \<and>
   compile_pattern re_compile_samples (Some (rx_pattern optional_word)) = Inr (Some optional_word) \<and>
   compile_pattern re_compile_samples (Some (rx_pattern one_word)) = Inr (Some one_word) \<and>
   set_command re_compile_samples root_class None None (Some (rx_pattern optional_word)) describe
     root_store = Inr root_described \<and>
   st_commands lineage_described (d_own root_class) = st_commands root_described (d_own root_class) \<and>
   set_command re_compile_samples grandchild_class (Some [''general'']) None
     (Some (rx_pattern one_word)) describe_number lineage_described = Inr lineage_shadowed \<and>
   dispatcher_get lineage_shadowed grandchild_class ''describe'' = Some grandchild_describe \<and>
   map_of (st_commands lineage_shadowed (d_own root_class)) ''describe'' = Some describe_cmd \<and>
   set_command re_compile_samples grandchild_class (Some [''general'']) None
     (Some (rx_pattern one_word)) describe_number lineage_store = Inr lineage_grandchild_first \<and>
   set_command re_compile_samples root_class None None (Some (rx_pattern optional_word)) describe
     lineage_grandchild_first = Inr lineage_root_second \<and>
   dispatcher_get lineage_root_second grandchild_class ''describe'' = Some grandchild_describe \<and>
   map_of (st_commands lineage_root_second (d_own root_class)) ''describe'' = Some describe_cmd \<and>
   cmd_regexp grandchild_describe = Some one_word \<and>
   cmd_regexp describe_cmd = Some optional_word"
proof -
  have base: "DispatcherBase child_class \<in> set [DispatcherBase child_class]" by simp
  have via: "d_own root_class \<in> set (commands_maps child_class)"
    by (simp add: commands_maps_def root_class_def child_class_def)
  have ok: "created family_store child_class"
    by (simp add: created_def family_store_def child_class_def)
  have keep: "st_commands lineage_described (d_own root_class)
      = st_commands root_described (d_own root_class)"
    by (simp add: lineage_described_def root_described_def root_class_def)
  note inst = command_shadowing [OF lineage_created base via ok strip_describe compile_samples,
      of None None _ _ _ "Some [''general'']" None]
  from inst [of root_store root_described lineage_described lineage_shadowed]
    root_registers_describe(1) keep grandchild_registers_describe(1)
  have one: "dispatcher_get lineage_shadowed grandchild_class ''describe'' =
       Some \<lparr>cmd_channels = Some [''general''], cmd_roles = None, cmd_regexp = Some one_word,
             cmd_callback = describe_number\<rparr> \<and>
     map_of (st_commands lineage_shadowed (d_own root_class)) ''describe'' =
       Some \<lparr>cmd_channels = None, cmd_roles = None, cmd_regexp = Some optional_word,
             cmd_callback = describe\<rparr>"
    by blast
  from inst [of lineage_store lineage_grandchild_first lineage_grandchild_first lineage_root_second]
    root_registers_describe(2) grandchild_registers_describe(2)
  have two: "dispatcher_get lineage_root_second grandchild_class ''describe'' =
       Some \<lparr>cmd_channels = Some [''general''], cmd_roles = None, cmd_regexp = Some one_word,
             cmd_callback = describe_number\<rparr> \<and>
     map_of (st_commands lineage_root_second (d_own root_class)) ''describe'' =
       Some \<lparr>cmd_channels = None, cmd_roles = None, cmd_regexp = Some optional_word,
             cmd_callback = describe\<rparr>"
    by blast
  from one two lineage_created via ok keep strip_describe compile_samples
    root_registers_describe grandchild_registers_describe
  show ?thesis by (simp add: grandchild_describe_def describe_cmd_def)
qed

text \<open>
  C7 as stated fails: \<open>bare\<close> has no keyword parameter \<open>y\<close> and takes no arbitrary
  keyword arguments, the pattern names the group \<open>y\<close>, and the registration fails with
  the error of the signature check of lines 61-62, which comes first, not with the error
  of the pattern's groups.
\<close>

theorem signature_error_comes_first:
  "''y'' \<in> set (args_re_findall (pattern_text (Some ''(?P<y>a)''))) \<and>
   ''y'' \<notin> set (cb_kwonlyargs bare) \<and>
   cb_varkw bare = None \<and>
   set_command re_compile_samples root_class None None (Some ''(?P<y>a)'') bare root_store
     = Inl ValueError_signature"
  by (simp add: findall_y pattern_text_def set_command_def bare_def)

text \<open>
  C8, evaluated. \<open>count_two\<close> declares the keyword-only parameters \<open>n\<close> and \<open>step\<close>;
  the pattern, which compiles, names \<open>n\<close> only. Line 72 reads the unbound name
  \<^verbatim>\<open>unused\<close>: the registration raises \<^verbatim>\<open>NameError\<close> and line 74 is not reached.
\<close>

theorem unused_keyword_raises_NameError:
  "args_re_findall (pattern_text (Some (rx_pattern one_word))) = [''n''] \<and>
   cb_kwonlyargs count_two = [''n'', ''step''] \<and>
   cb_args count_two = [''message''] \<and>
   cb_varkw count_two = None \<and>
   re_compile_samples (rx_pattern one_word) = Inr one_word \<and>
   set_command re_compile_samples root_class None None (Some (rx_pattern one_word)) count_two
     root_store = Inl (NameError ''unused'')"
  by (simp add: findall_one_word pattern_text_def set_command_def check_named_groups_def
      count_two_def re_compile_samples_def)
    (simp add: one_word_def optional_word_def)

text \<open>
  C7, amended. For every registration whose handler passes the signature check (a
  positional parameter, or arbitrary positional arguments), whose pattern names, as
  \<^verbatim>\<open>args_re\<close> reads it, a group \<open>g\<close> that is none of the handler's keyword-only
  parameters, and whose handler takes no arbitrary keyword arguments, \<^verbatim>\<open>set_command\<close>
  raises the \<^verbatim>\<open>ValueError\<close> that lists the groups without a parameter, \<open>g\<close> among
  them. The exception leaves \<^verbatim>\<open>set_command\<close> before line 74, its only write, so no
  store is returned and the command table stays as it was.
\<close>

theorem pattern_group_mismatch_rejected:
  assumes group: "g \<in> set (args_re_findall (pattern_text pattern))"
    and missing: "g \<notin> set (cb_kwonlyargs callback)"
    and no_varkw: "cb_varkw callback = None"
    and signature: "cb_args callback \<noteq> [] \<or> cb_varargs callback \<noteq> None"
  shows "\<exists>missings.
           set_command re_compile cls channels roles pattern callback st
             = Inl (ValueError_groups missings) \<and>
           g \<in> set missings \<and>
           set missings = set (args_re_findall (pattern_text pattern)) - set (cb_kwonlyargs callback)"
proof -
  from group have nonempty: "pattern_text pattern \<noteq> []"
    by (cases "pattern_text pattern") auto
  let ?missings = "filter (\<lambda>g. g \<notin> set (remdups (cb_kwonlyargs callback)))
                     (remdups (args_re_findall (pattern_text pattern)))"
  from group missing have inm: "g \<in> set ?missings" by simp
  have ne: "?missings \<noteq> []"
  proof
    assume "?missings = []"
    with inm show False by (metis empty_iff empty_set)
  qed
  have "check_named_groups pattern callback = Some (ValueError_groups ?missings)"
    using nonempty no_varkw ne by (simp add: check_named_groups_def Let_def)
  then have "set_command re_compile cls channels roles pattern callback st
               = Inl (ValueError_groups ?missings)"
    using signature by (auto simp: set_command_def Let_def)
  moreover have "set ?missings =
      set (args_re_findall (pattern_text pattern)) - set (cb_kwonlyargs callback)"
    by auto
  ultimately show ?thesis using inm by blast
qed

theorem pattern_group_mismatch_rejected_witness:
  "''n'' \<in> set (args_re_findall (pattern_text (Some (rx_pattern one_word)))) \<and>
   ''n'' \<notin> set (cb_kwonlyargs ping) \<and>
   cb_varkw ping = None \<and>
   cb_args ping \<noteq> [] \<and>
   set_command re_compile_samples root_class None None (Some (rx_pattern one_word)) ping root_store
     = Inl (ValueError_groups [''n''])"
proof -
  have group: "''n'' \<in> set (args_re_findall (pattern_text (Some (rx_pattern one_word))))"
    by (simp add: pattern_text_def findall_one_word)
  have missing: "''n'' \<notin> set (cb_kwonlyargs ping)" by (simp add: ping_def)
  have no_varkw: "cb_varkw ping = None" by (simp add: ping_def)
  have signature: "cb_args ping \<noteq> [] \<or> cb_varargs ping \<noteq> None" by (simp add: ping_def)
  from pattern_group_mismatch_rejected [OF group missing no_varkw signature,
      of re_compile_samples root_class None None root_store]
  obtain missings where
    m: "set_command re_compile_samples root_class None None (Some (rx_pattern one_word)) ping
          root_store = Inl (ValueError_groups missings)"
    by blast
  have "set_command re_compile_samples root_class None None (Some (rx_pattern one_word)) ping
          root_store = Inl (ValueError_groups [''n''])"
    by (simp add: set_command_def check_named_groups_def pattern_text_def findall_one_word ping_def)
      (simp add: one_word_def)
  with m group missing no_varkw show ?thesis by (simp add: ping_def)
qed

section \<open>The dispatch engine: reading the text\<close>

lemma takeWhile_until: "x \<notin> set xs \<Longrightarrow> takeWhile (\<lambda>c. c \<noteq> x) (xs @ x # ys) = xs"
  by (induction xs) auto

lemma dropWhile_until: "x \<notin> set xs \<Longrightarrow> dropWhile (\<lambda>c. c \<noteq> x) (xs @ x # ys) = x # ys"
  by (induction xs) auto

lemma py_split_space:
  "CHR '' '' \<notin> set name \<Longrightarrow> py_split (Suc n) (name @ CHR '' '' # rest) = name # py_split n rest"
  by (simp add: takeWhile_until dropWhile_until)

lemma py_split_no_space:
  "CHR '' '' \<notin> set s \<Longrightarrow> py_split n s = [s]"
  by (cases n) auto

text \<open>
  C6, amended. For every message whose text starts with a configured prefix of one
  character, the command name is the text between the prefix and the first space, and the
  payload is the text after that space; without a space the command name is all the text
  after the prefix and the payload is empty.
\<close>

theorem prefixed_command_split:
  assumes prefix1: "PREFIX env = [p]"
    and name: "CHR '' '' \<notin> set name"
  shows "(msg_content m = p # name @ CHR '' '' # payload \<longrightarrow>
           parse_invocation env m = Parsed name payload) \<and>
         (msg_content m = p # name \<longrightarrow> parse_invocation env m = Parsed name [])"
  using assms
  by (auto simp: parse_invocation_def startswith_def takeWhile_until dropWhile_until py_split_no_space)

text \<open>
  C6 as stated fails twice. With the prefix \<^verbatim>\<open>!\<close> and a tab after \<^verbatim>\<open>!ping\<close>, the
  first whitespace-delimited token is \<^verbatim>\<open>ping\<close>, and the engine, which cuts at spaces
  only, takes the whole rest of the text as the command name. With the prefix \<^verbatim>\<open>!!\<close>
  the engine drops one character (line 117), and the command name keeps the second
  \<^verbatim>\<open>!\<close>.
\<close>

theorem prefix_split_counterexample:
  "startswith (''!ping'' @ [CHR 0x09] @ ''foo'') (PREFIX sample_env) \<and>
   parse_invocation sample_env (message_in ''general'' (''!ping'' @ [CHR 0x09] @ ''foo''))
     = Parsed (''ping'' @ [CHR 0x09] @ ''foo'') [] \<and>
   first_token (drop (length (PREFIX sample_env)) (''!ping'' @ [CHR 0x09] @ ''foo'')) = ''ping'' \<and>
   startswith ''!!ping'' (PREFIX long_prefix_env) \<and>
   parse_invocation long_prefix_env (message_in ''general'' ''!!ping'') = Parsed ''!ping'' [] \<and>
   first_token (drop (length (PREFIX long_prefix_env)) ''!!ping'') = ''ping''"
  by (simp add: parse_invocation_def sample_env_def long_prefix_env_def first_token_def is_space_def)

theorem prefixed_command_split_witness:
  "PREFIX sample_env = [CHR ''!''] \<and>
   CHR '' '' \<notin> set ''describe'' \<and>
   msg_content (message_in ''general'' ''!describe math'') = CHR ''!'' # ''describe'' @ CHR '' '' # ''math'' \<and>
   parse_invocation sample_env (message_in ''general'' ''!describe math'') = Parsed ''describe'' ''math'' \<and>
   msg_content (message_in ''general'' ''!describe'') = CHR ''!'' # ''describe'' \<and>
   parse_invocation sample_env (message_in ''general'' ''!describe'') = Parsed ''describe'' []"
proof -
  have p: "PREFIX sample_env = [CHR ''!'']" by (simp add: sample_env_def)
  have n: "CHR '' '' \<notin> set ''describe''" by simp
  from prefixed_command_split [OF p n, of "message_in ''general'' ''!describe math''" "''math''"]
    prefixed_command_split [OF p n, of "message_in ''general'' ''!describe''"]
  show ?thesis using p by simp
qed

section \<open>The dispatch engine: pattern and call\<close>

lemma called_forward [simp]: "called (map (\<lambda>s. Forward_call s m) xs) = []"
  by (induction xs) auto

lemma called_append [simp]: "called (xs @ ys) = called xs @ called ys"
  by (induction xs rule: called.induct) auto

lemma sent_forward [simp]: "sent (map (\<lambda>s. Forward_call s m) xs) = []"
  by (induction xs) auto

lemma sent_append [simp]: "sent (xs @ ys) = sent xs @ sent ys"
  by (induction xs rule: sent.induct) auto

lemma forward_pass_only_forwards:
  "forward_pass m subs = (fw, fl) \<Longrightarrow> called fw = [] \<and> sent fw = []"
  using forward_pass_events [of m subs] by simp

lemma dispatch_authorized:
  assumes "dispatcher_get st self cmd_name = Some cmd"
    and "channel_allowed cmd m" and "role_allowed cmd m"
  shows "dispatch env st self m cmd_name payload = match_and_call m cmd_name payload cmd"
  using assms
  by (auto simp: dispatch_def channel_allowed_def role_allowed_def find_None_iff list_ex_iff
      split: option.splits)

lemma on_message_dispatches:
  assumes "msg_author_id m \<noteq> self_user_id env"
    and "forward_pass m (forwarder_get st self (msg_channel_name m)) = (fw, Continue)"
    and "parse_invocation env m = Parsed cmd_name payload"
    and "dispatcher_get st self cmd_name = Some cmd"
    and "channel_allowed cmd m" and "role_allowed cmd m"
  shows "on_message env st self m =
           (fw @ fst (match_and_call m cmd_name payload cmd),
            snd (match_and_call m cmd_name payload cmd))"
  using assms dispatch_authorized [of st self cmd_name cmd m env payload]
  by (simp add: on_message_def split: prod.splits)

lemma usage_text_embeds: "sublist pattern (usage_text m cmd_name pattern)"
proof -
  have "usage_text m cmd_name pattern =
      (addressed m cmd_name @ '' n'a pas pu '' @ [e_circumflex] @ ''tre ex'' @ [e_acute] @ ''cut''
       @ [e_acute] @ ''e car elle r'' @ [e_acute] @ ''pond au pattern suivant: ''
       @ [backtick, backtick, backtick]) @ pattern @ ([dquote] @ [backtick, backtick, backtick])"
    by (simp add: usage_text_def)
  then show ?thesis unfolding sublist_def by blast
qed

text \<open>
  C9. Take a message of another author that passes the forwards and whose command
  resolves to a scope-authorized command with a pattern \<open>r\<close>. The engine asks
  \<^verbatim>\<open>r.match(payload)\<close>, the library's match from position zero. If there is no match, the
  run ends with one more event, the text sent to the channel, which embeds the pattern's
  text, and no command is called. If there is a match, whatever the position \<open>m_end\<close>
  where it ends (the engine never reads it, so the match need not reach the end of the
  payload), and the cast returns, the handler is called with the cast arguments.
\<close>

theorem pattern_gate:
  assumes notself: "msg_author_id m \<noteq> self_user_id env"
    and fp: "forward_pass m (forwarder_get st self (msg_channel_name m)) = (fw, Continue)"
    and parsed: "parse_invocation env m = Parsed cmd_name payload"
    and resolved: "dispatcher_get st self cmd_name = Some cmd"
    and channel: "channel_allowed cmd m"
    and role: "role_allowed cmd m"
    and pattern: "cmd_regexp cmd = Some r"
  shows "(rx_match r payload = None \<longrightarrow>
            on_message env st self m =
              (fw @ [Send_message (msg_channel_name m) (usage_text m cmd_name (rx_pattern r))],
               Returned) \<and>
            sublist (rx_pattern r) (usage_text m cmd_name (rx_pattern r)) \<and>
            called (fst (on_message env st self m)) = []) \<and>
         (\<forall>match kwargs.
            rx_match r payload = Some match \<and>
            cast_using_type_hints (cb_type_hints (cmd_callback cmd)) (m_groupdict match) = Inr kwargs \<longrightarrow>
              called (fst (on_message env st self m)) = [(cmd_callback cmd, kwargs)] \<and>
              fst (on_message env st self m) = fw @ fst (invoke m cmd kwargs))"
proof -
  note run = on_message_dispatches [OF notself fp parsed resolved channel role]
  from forward_pass_only_forwards [OF fp] have fw: "called fw = []" by simp
  have nomatch: "on_message env st self m =
              (fw @ [Send_message (msg_channel_name m) (usage_text m cmd_name (rx_pattern r))],
               Returned) \<and>
            sublist (rx_pattern r) (usage_text m cmd_name (rx_pattern r)) \<and>
            called (fst (on_message env st self m)) = []"
    if "rx_match r payload = None"
    using that run pattern fw by (simp add: match_and_call_def usage_text_embeds)
  have matched: "called (fst (on_message env st self m)) = [(cmd_callback cmd, kwargs)] \<and>
              fst (on_message env st self m) = fw @ fst (invoke m cmd kwargs)"
    if "rx_match r payload = Some match"
      and "cast_using_type_hints (cb_type_hints (cmd_callback cmd)) (m_groupdict match) = Inr kwargs"
    for match kwargs
    using that run pattern fw by (simp add: match_and_call_def invoke_def split: option.splits)
  from nomatch matched show ?thesis by blast
qed

lemma plugins_lookup [simp]:
  "dispatcher_get plugins_store root_class ''ping'' = Some root_ping"
  "dispatcher_get plugins_store root_class ''describe'' = Some describe_cmd"
  "dispatcher_get plugins_store root_class ''count'' = Some count_cmd"
  "dispatcher_get plugins_store root_class ''explode'' = Some explode_cmd"
  "forwarder_get plugins_store root_class channel = []"
  by (simp_all add: dispatcher_get_def forwarder_get_def plugins_store_def root_store_def
      root_class_def commands_maps_def forwards_maps_def)

lemma sample_commands_allowed [simp]:
  "channel_allowed describe_cmd m" "role_allowed describe_cmd m"
  "channel_allowed count_cmd m" "role_allowed count_cmd m"
  "channel_allowed explode_cmd m" "role_allowed explode_cmd m"
  by (simp_all add: channel_allowed_def role_allowed_def describe_cmd_def count_cmd_def
      explode_cmd_def)

lemma sample_env_fields [simp]:
  "PREFIX sample_env = ''!''" "self_user_id sample_env = ''1000''"
  by (simp_all add: sample_env_def)

lemma sample_parses [simp]:
  "parse_invocation sample_env (message_in c ''!count'') = Parsed ''count'' []"
  "parse_invocation sample_env (message_in c ''!count abc'') = Parsed ''count'' ''abc''"
  "parse_invocation sample_env (message_in c ''!describe'') = Parsed ''describe'' []"
  "parse_invocation sample_env (message_in c ''!describe math extra'') = Parsed ''describe'' ''math extra''"
  "parse_invocation sample_env (message_in c ''!explode'') = Parsed ''explode'' []"
  by (simp_all add: parse_invocation_def)

lemma sample_matches [simp]:
  "rx_match one_word [] = None"
  "rx_match one_word ''abc'' = Some \<lparr>m_end = 3, m_groupdict = [(''n'', Some ''abc'')]\<rparr>"
  "rx_match optional_word [] = Some \<lparr>m_end = 0, m_groupdict = [(''cmd_name'', None)]\<rparr>"
  "rx_match optional_word ''math extra'' = Some \<lparr>m_end = 4, m_groupdict = [(''cmd_name'', Some ''math'')]\<rparr>"
  by (simp_all add: one_word_def optional_word_def word_at_start_def is_space_def)

theorem pattern_gate_witness:
  "msg_author_id (message_in ''general'' ''!count'') \<noteq> self_user_id sample_env \<and>
   forward_pass (message_in ''general'' ''!count'')
     (forwarder_get plugins_store root_class (msg_channel_name (message_in ''general'' ''!count'')))
     = ([], Continue) \<and>
   parse_invocation sample_env (message_in ''general'' ''!count'') = Parsed ''count'' [] \<and>
   dispatcher_get plugins_store root_class ''count'' = Some count_cmd \<and>
   channel_allowed count_cmd (message_in ''general'' ''!count'') \<and>
   role_allowed count_cmd (message_in ''general'' ''!count'') \<and>
   cmd_regexp count_cmd = Some one_word \<and>
   rx_match one_word [] = None \<and>
   on_message sample_env plugins_store root_class (message_in ''general'' ''!count'') =
     ([Send_message ''general''
         (usage_text (message_in ''general'' ''!count'') ''count'' (rx_pattern one_word))],
      Returned) \<and>
   parse_invocation sample_env (message_in ''general'' ''!describe math extra'')
     = Parsed ''describe'' ''math extra'' \<and>
   dispatcher_get plugins_store root_class ''describe'' = Some describe_cmd \<and>
   cmd_regexp describe_cmd = Some optional_word \<and>
   rx_match optional_word ''math extra''
     = Some \<lparr>m_end = 4, m_groupdict = [(''cmd_name'', Some ''math'')]\<rparr> \<and>
   4 < length ''math extra'' \<and>
   cast_using_type_hints (cb_type_hints (cmd_callback describe_cmd)) [(''cmd_name'', Some ''math'')]
     = Inr [(''cmd_name'', PyStr ''math'')] \<and>
   called (fst (on_message sample_env plugins_store root_class
                  (message_in ''general'' ''!describe math extra'')))
     = [(describe, [(''cmd_name'', PyStr ''math'')])]"
proof -
  let ?m1 = "message_in ''general'' ''!count''"
  let ?m2 = "message_in ''general'' ''!describe math extra''"
  have notself: "msg_author_id (message_in ''general'' t) \<noteq> self_user_id sample_env" for t
    by simp
  have fp: "forward_pass (message_in ''general'' t)
      (forwarder_get plugins_store root_class (msg_channel_name (message_in ''general'' t)))
      = ([], Continue)" for t
    by simp
  have r1: "cmd_regexp count_cmd = Some one_word" by (simp add: count_cmd_def)
  have r2: "cmd_regexp describe_cmd = Some optional_word" by (simp add: describe_cmd_def)
  have cast: "cast_using_type_hints (cb_type_hints (cmd_callback describe_cmd))
      [(''cmd_name'', Some ''math'')] = Inr [(''cmd_name'', PyStr ''math'')]"
    by (simp add: describe_cmd_def describe_def py_str_def)
  have cb: "cmd_callback describe_cmd = describe" by (simp add: describe_cmd_def)
  from pattern_gate [OF notself fp sample_parses(1) plugins_lookup(3) sample_commands_allowed(3)
      sample_commands_allowed(4) r1]
  have one: "on_message sample_env plugins_store root_class ?m1 =
     ([Send_message ''general'' (usage_text ?m1 ''count'' (rx_pattern one_word))], Returned)"
    by simp
  have hyp2: "rx_match optional_word ''math extra''
        = Some \<lparr>m_end = 4, m_groupdict = [(''cmd_name'', Some ''math'')]\<rparr> \<and>
      cast_using_type_hints (cb_type_hints (cmd_callback describe_cmd))
        (m_groupdict \<lparr>m_end = 4, m_groupdict = [(''cmd_name'', Some ''math'')]\<rparr>)
        = Inr [(''cmd_name'', PyStr ''math'')]"
    using cast by simp
  from pattern_gate [OF notself fp sample_parses(4) plugins_lookup(2) sample_commands_allowed(1)
      sample_commands_allowed(2) r2] hyp2
  have "called (fst (on_message sample_env plugins_store root_class ?m2))
     = [(cmd_callback describe_cmd, [(''cmd_name'', PyStr ''math'')])]"
    by blast
  then have two: "called (fst (on_message sample_env plugins_store root_class ?m2))
     = [(describe, [(''cmd_name'', PyStr ''math'')])]"
    by (simp add: cb)
  show ?thesis using one two r1 r2 cast by simp
qed

lemma cast_keeps_None:
  "cast_using_type_hints th kw = Inr res \<Longrightarrow> (g, None) \<in> set kw \<Longrightarrow> (g, PyNone) \<in> set res"
proof (induction kw arbitrary: res)
  case Nil
  then show ?case by simp
next
  case (Cons item items)
  obtain key val where item: "item = (key, val)" by (cases item)
  from Cons.prems(1) obtain v rest where
    res: "res = (key, v) # rest" and rest: "cast_using_type_hints th items = Inr rest"
      and v: "val = None \<longrightarrow> v = PyNone"
    by (auto simp: item split: sum.splits option.splits)
  show ?case
  proof (cases "(g, None) = item")
    case True
    with item v res show ?thesis by auto
  next
    case False
    with Cons.prems(2) have "(g, None) \<in> set items" by simp
    from Cons.IH [OF rest this] res show ?thesis by simp
  qed
qed

text \<open>
  C10. A text that holds only the command token gives the empty payload, in each of the
  three invocation styles: after the prefix character with no space behind it; after a
  first word that starts with the mention, one space, and a token without space; a text
  without space in a private channel. With the empty payload, a resolved and
  scope-authorized command whose pattern matches the empty string goes on to the cast with
  the match's \<^verbatim>\<open>groupdict()\<close> as it is, and when the cast returns the handler is
  called with its result, in which every group that was \<open>None\<close> is \<open>PyNone\<close>.
\<close>

theorem bare_command_has_empty_payload:
  "(startswith (msg_content m) (PREFIX env) \<and> CHR '' '' \<notin> set (drop 1 (msg_content m)) \<longrightarrow>
      parse_invocation env m = Parsed (drop 1 (msg_content m)) []) \<and>
   (\<not> startswith (msg_content m) (PREFIX env) \<and>
    startswith (msg_content m) (''<@'' @ self_user_id env @ ''>'') \<and>
    msg_content m = word @ CHR '' '' # token \<and>
    CHR '' '' \<notin> set word \<and> CHR '' '' \<notin> set token \<longrightarrow>
      parse_invocation env m = Parsed token []) \<and>
   (\<not> startswith (msg_content m) (PREFIX env) \<and>
    \<not> startswith (msg_content m) (''<@'' @ self_user_id env @ ''>'') \<and>
    \<not> msg_channel_public m \<and> CHR '' '' \<notin> set (msg_content m) \<longrightarrow>
      parse_invocation env m = Parsed (msg_content m) []) \<and>
   (msg_author_id m \<noteq> self_user_id env \<and>
    forward_pass m (forwarder_get st self (msg_channel_name m)) = (fw, Continue) \<and>
    parse_invocation env m = Parsed cmd_name [] \<and>
    dispatcher_get st self cmd_name = Some cmd \<and>
    channel_allowed cmd m \<and> role_allowed cmd m \<and>
    cmd_regexp cmd = Some r \<and> rx_match r [] = Some match \<longrightarrow>
      on_message env st self m =
        (case cast_using_type_hints (cb_type_hints (cmd_callback cmd)) (m_groupdict match) of
           Inl e \<Rightarrow> (fw, Propagated e)
         | Inr kwargs \<Rightarrow> (fw @ fst (invoke m cmd kwargs), snd (invoke m cmd kwargs))) \<and>
      (\<forall>kwargs.
         cast_using_type_hints (cb_type_hints (cmd_callback cmd)) (m_groupdict match) = Inr kwargs \<longrightarrow>
           called (fst (on_message env st self m)) = [(cmd_callback cmd, kwargs)] \<and>
           (\<forall>g. (g, None) \<in> set (m_groupdict match) \<longrightarrow> (g, PyNone) \<in> set kwargs)))"
proof -
  have prefixed: "parse_invocation env m = Parsed (drop 1 (msg_content m)) []"
    if "startswith (msg_content m) (PREFIX env)" "CHR '' '' \<notin> set (drop 1 (msg_content m))"
    using that by (simp add: parse_invocation_def py_split_no_space)
  have mentioned: "parse_invocation env m = Parsed token []"
    if "\<not> startswith (msg_content m) (PREFIX env)"
      "startswith (msg_content m) (''<@'' @ self_user_id env @ ''>'')"
      "msg_content m = word @ CHR '' '' # token"
      "CHR '' '' \<notin> set word" "CHR '' '' \<notin> set token"
  proof -
    have "py_split 2 (msg_content m) = [word, token]"
      using that(3,4,5) py_split_space [of word 1 token] py_split_no_space [of token 1]
      by (simp add: numeral_2_eq_2)
    with that(1,2) show ?thesis by (simp add: parse_invocation_def)
  qed
  have direct: "parse_invocation env m = Parsed (msg_content m) []"
    if "\<not> startswith (msg_content m) (PREFIX env)"
      "\<not> startswith (msg_content m) (''<@'' @ self_user_id env @ ''>'')"
      "\<not> msg_channel_public m" "CHR '' '' \<notin> set (msg_content m)"
    using that by (simp add: parse_invocation_def py_split_no_space)
  have engine: "on_message env st self m =
        (case cast_using_type_hints (cb_type_hints (cmd_callback cmd)) (m_groupdict match) of
           Inl e \<Rightarrow> (fw, Propagated e)
         | Inr kwargs \<Rightarrow> (fw @ fst (invoke m cmd kwargs), snd (invoke m cmd kwargs))) \<and>
      (\<forall>kwargs.
         cast_using_type_hints (cb_type_hints (cmd_callback cmd)) (m_groupdict match) = Inr kwargs \<longrightarrow>
           called (fst (on_message env st self m)) = [(cmd_callback cmd, kwargs)] \<and>
           (\<forall>g. (g, None) \<in> set (m_groupdict match) \<longrightarrow> (g, PyNone) \<in> set kwargs))"
    if notself: "msg_author_id m \<noteq> self_user_id env"
      and fp: "forward_pass m (forwarder_get st self (msg_channel_name m)) = (fw, Continue)"
      and parsed: "parse_invocation env m = Parsed cmd_name []"
      and resolved: "dispatcher_get st self cmd_name = Some cmd"
      and allowed: "channel_allowed cmd m" "role_allowed cmd m"
      and pattern: "cmd_regexp cmd = Some r" and matches: "rx_match r [] = Some match"
  proof -
    note run = on_message_dispatches [OF notself fp parsed resolved allowed]
    from forward_pass_only_forwards [OF fp] have fw: "called fw = []" by simp
    have a: "on_message env st self m =
        (case cast_using_type_hints (cb_type_hints (cmd_callback cmd)) (m_groupdict match) of
           Inl e \<Rightarrow> (fw, Propagated e)
         | Inr kwargs \<Rightarrow> (fw @ fst (invoke m cmd kwargs), snd (invoke m cmd kwargs)))"
      using run pattern matches by (simp add: match_and_call_def split: sum.splits)
    have b: "called (fst (on_message env st self m)) = [(cmd_callback cmd, kwargs)] \<and>
           (\<forall>g. (g, None) \<in> set (m_groupdict match) \<longrightarrow> (g, PyNone) \<in> set kwargs)"
      if c: "cast_using_type_hints (cb_type_hints (cmd_callback cmd)) (m_groupdict match) = Inr kwargs"
      for kwargs
      using a c fw cast_keeps_None [OF c]
      by (simp add: invoke_def split: option.splits)
    from a b show ?thesis by blast
  qed
  from prefixed mentioned direct engine show ?thesis by blast
qed

lemma direct_message_fields [simp]:
  "msg_author_id (direct_message t) = ''42''"
  "msg_author_roles (direct_message t) = None"
  "msg_channel_name (direct_message t) = ''dm''"
  "msg_channel_public (direct_message t) = False"
  "msg_content (direct_message t) = t"
  by (simp_all add: direct_message_def)

theorem bare_command_has_empty_payload_witness:
  "startswith (msg_content (message_in ''general'' ''!describe'')) (PREFIX sample_env) \<and>
   CHR '' '' \<notin> set (drop 1 (msg_content (message_in ''general'' ''!describe''))) \<and>
   parse_invocation sample_env (message_in ''general'' ''!describe'') = Parsed ''describe'' [] \<and>
   \<not> startswith ''<@1000> describe'' (PREFIX sample_env) \<and>
   startswith ''<@1000> describe'' (''<@'' @ self_user_id sample_env @ ''>'') \<and>
   parse_invocation sample_env (message_in ''general'' ''<@1000> describe'') = Parsed ''describe'' [] \<and>
   \<not> msg_channel_public (direct_message ''describe'') \<and>
   parse_invocation sample_env (direct_message ''describe'') = Parsed ''describe'' [] \<and>
   msg_author_id (message_in ''general'' ''!describe'') \<noteq> self_user_id sample_env \<and>
   forward_pass (message_in ''general'' ''!describe'')
     (forwarder_get plugins_store root_class (msg_channel_name (message_in ''general'' ''!describe'')))
     = ([], Continue) \<and>
   dispatcher_get plugins_store root_class ''describe'' = Some describe_cmd \<and>
   channel_allowed describe_cmd (message_in ''general'' ''!describe'') \<and>
   role_allowed describe_cmd (message_in ''general'' ''!describe'') \<and>
   cmd_regexp describe_cmd = Some optional_word \<and>
   rx_match optional_word [] = Some \<lparr>m_end = 0, m_groupdict = [(''cmd_name'', None)]\<rparr> \<and>
   cast_using_type_hints (cb_type_hints (cmd_callback describe_cmd)) [(''cmd_name'', None)]
     = Inr [(''cmd_name'', PyNone)] \<and>
   on_message sample_env plugins_store root_class (message_in ''general'' ''!describe'') =
     ([Command_call describe (message_in ''general'' ''!describe'') [(''cmd_name'', PyNone)]],
      Returned)"
proof -
  let ?m = "message_in ''general'' ''!describe''"
  let ?match = "\<lparr>m_end = 0, m_groupdict = [(''cmd_name'', None)]\<rparr>"
  have a1: "startswith (msg_content ?m) (PREFIX sample_env) \<and>
            CHR '' '' \<notin> set (drop 1 (msg_content ?m))"
    by simp
  have a2: "\<not> startswith (msg_content (message_in ''general'' ''<@1000> describe'')) (PREFIX sample_env) \<and>
    startswith (msg_content (message_in ''general'' ''<@1000> describe''))
      (''<@'' @ self_user_id sample_env @ ''>'') \<and>
    msg_content (message_in ''general'' ''<@1000> describe'') = ''<@1000>'' @ CHR '' '' # ''describe'' \<and>
    CHR '' '' \<notin> set ''<@1000>'' \<and> CHR '' '' \<notin> set ''describe''"
    by simp
  have a3: "\<not> startswith (msg_content (direct_message ''describe'')) (PREFIX sample_env) \<and>
    \<not> startswith (msg_content (direct_message ''describe'')) (''<@'' @ self_user_id sample_env @ ''>'') \<and>
    \<not> msg_channel_public (direct_message ''describe'') \<and>
    CHR '' '' \<notin> set (msg_content (direct_message ''describe''))"
    by simp
  have r: "cmd_regexp describe_cmd = Some optional_word" by (simp add: describe_cmd_def)
  have cb: "cmd_callback describe_cmd = describe" by (simp add: describe_cmd_def)
  have cast: "cast_using_type_hints (cb_type_hints (cmd_callback describe_cmd))
      (m_groupdict ?match) = Inr [(''cmd_name'', PyNone)]"
    by simp
  have a4: "msg_author_id ?m \<noteq> self_user_id sample_env \<and>
    forward_pass ?m (forwarder_get plugins_store root_class (msg_channel_name ?m)) = ([], Continue) \<and>
    parse_invocation sample_env ?m = Parsed ''describe'' [] \<and>
    dispatcher_get plugins_store root_class ''describe'' = Some describe_cmd \<and>
    channel_allowed describe_cmd ?m \<and> role_allowed describe_cmd ?m \<and>
    cmd_regexp describe_cmd = Some optional_word \<and> rx_match optional_word [] = Some ?match"
    using r by simp
  from bare_command_has_empty_payload
    [of ?m sample_env "''<@1000>''" "''describe''" plugins_store root_class "[]" "''describe''"
        describe_cmd optional_word ?match] a1
  have p1: "parse_invocation sample_env ?m = Parsed ''describe'' []" by simp
  from bare_command_has_empty_payload
    [of "message_in ''general'' ''<@1000> describe''" sample_env "''<@1000>''" "''describe''"] a2
  have p2: "parse_invocation sample_env (message_in ''general'' ''<@1000> describe'')
      = Parsed ''describe'' []"
    by blast
  from bare_command_has_empty_payload [of "direct_message ''describe''" sample_env] a3
  have p3: "parse_invocation sample_env (direct_message ''describe'') = Parsed ''describe'' []"
    by simp
  from bare_command_has_empty_payload
    [of ?m sample_env "''<@1000>''" "''describe''" plugins_store root_class "[]" "''describe''"
        describe_cmd optional_word ?match] a4 cast
  have "on_message sample_env plugins_store root_class ?m =
      (fst (invoke ?m describe_cmd [(''cmd_name'', PyNone)]),
       snd (invoke ?m describe_cmd [(''cmd_name'', PyNone)]))"
    by simp
  then have run: "on_message sample_env plugins_store root_class ?m =
      ([Command_call describe ?m [(''cmd_name'', PyNone)]], Returned)"
    by (simp add: invoke_def cb describe_def)
  from a1 a2 a3 a4 p1 p2 p3 run cast show ?thesis by simp
qed

text \<open>
  C2, evaluated. \<open>count\<close> is registered with the pattern \<open>one_word\<close> and the hint
  \<open>decimal\<close> for \<open>n\<close>. On \<^verbatim>\<open>!count abc\<close> the pattern matches, the cast calls
  \<open>decimal\<close> on \<^verbatim>\<open>abc\<close>, which raises an instance of \<^verbatim>\<open>Exception\<close>, and the cast
  stands at lines 149-151, before the \<^verbatim>\<open>try\<close> of line 157: the exception leaves
  \<^verbatim>\<open>on_message\<close> and nothing is sent. On \<^verbatim>\<open>!explode\<close> the same kind of exception
  is raised by the handler, inside the \<^verbatim>\<open>try\<close>: it is caught and the internal-error
  text is sent.
\<close>

theorem cast_failure_escapes_on_message:
  "dispatcher_get plugins_store root_class ''count'' = Some count_cmd \<and>
   cmd_regexp count_cmd = Some one_word \<and>
   cb_type_hints (cmd_callback count_cmd) = [(''n'', decimal)] \<and>
   parse_invocation sample_env (message_in ''general'' ''!count abc'') = Parsed ''count'' ''abc'' \<and>
   rx_match one_word ''abc'' = Some \<lparr>m_end = 3, m_groupdict = [(''n'', Some ''abc'')]\<rparr> \<and>
   decimal ''abc'' = Inl (Raised True ''ValueError: invalid literal for int() with base 10'') \<and>
   is_Exception (Raised True ''ValueError: invalid literal for int() with base 10'') \<and>
   on_message sample_env plugins_store root_class (message_in ''general'' ''!count abc'') =
     ([], Propagated (Raised True ''ValueError: invalid literal for int() with base 10'')) \<and>
   cb_call (cmd_callback explode_cmd) (message_in ''general'' ''!explode'') []
     = Some (Raised True ''RuntimeError'') \<and>
   on_message sample_env plugins_store root_class (message_in ''general'' ''!explode'') =
     ([Command_call explode (message_in ''general'' ''!explode'') [],
       Send_message ''general'' internal_error_text], Returned)"
  by (simp add: on_message_def dispatch_def match_and_call_def invoke_def count_cmd_def
      explode_cmd_def count_def explode_def decimal_def is_digit_def)

section \<open>The sample stores come from registrations\<close>

text \<open>
  \<open>root_class\<close> is a first dispatcher class with a base that is no dispatcher, as
  \<^verbatim>\<open>TheNumberOne(discord.Client, metaclass=DispatcherMeta)\<close> is; the stores of the
  samples are what the registrations leave.
\<close>

lemma root_created: "DispatcherMeta_new [PlainBase] empty_store = (root_class, root_store)"
  by (simp add: DispatcherMeta_new_def empty_store_def root_class_def root_store_def)

lemma three_forwards_registered:
  "\<exists>st1 st2.
     add_forward root_class [''general''] True (listener ''s1'') root_store = Inr st1 \<and>
     add_forward root_class [''general''] False (listener ''s2'') st1 = Inr st2 \<and>
     add_forward root_class [''general''] True (listener ''s3'') st2 = Inr three_forwards"
  by (simp add: add_forward_step_def chain_contains_def chain_setitem_def forwards_maps_def
      root_class_def root_store_def three_forwards_def sub_def)

lemma strip_explode [simp]: "strip_underscores ''explode'' = ''explode''"
  by (simp add: strip_underscores_def)

lemma plugins_registered:
  "\<exists>st1 st2 st3.
     set_command re_compile_samples root_class None None None ping root_store = Inr st1 \<and>
     set_command re_compile_samples root_class None None (Some (rx_pattern optional_word)) describe st1
       = Inr st2 \<and>
     set_command re_compile_samples root_class None None (Some (rx_pattern one_word)) count st2
       = Inr st3 \<and>
     set_command re_compile_samples root_class None None None explode st3 = Inr plugins_store"
  by (simp add: set_command_def check_named_groups_def pattern_text_def chain_setitem_def
      findall_one_word findall_optional_word re_compile_samples_def
      ping_def describe_def count_def explode_def root_ping_def describe_cmd_def count_cmd_def
      explode_cmd_def root_class_def root_store_def plugins_store_def)
    (simp add: one_word_def optional_word_def)

end
